theory Spec2Isabelle
  imports Complex_Main "HOL-Library.Sublist" "HOL-Library.Multiset"
begin

section \<open>DataClaw: ingestion, role detection and reporting over dirty CSV tables\<close>

text \<open>
  The program is \<^verbatim>\<open>src/server.py\<close>: three tools (\<^verbatim>\<open>analyze_csv\<close>, \<^verbatim>\<open>clean_csv\<close>,
  \<^verbatim>\<open>csv_info\<close>) over the helpers \<^verbatim>\<open>coerce_numeric_if_majority\<close>,
  \<^verbatim>\<open>load_csv_robust\<close> and \<^verbatim>\<open>detectar_colunas\<close>. The helpers and the control flow of
  the tools are embedded as HOL functions. What the program calls in pandas, os and
  matplotlib (parsing a file, parsing one number or date, quantiles, rendering markdown
  and charts, paths and the clock) is not in the repository: those calls are the fields
  of the record \<open>env\<close>, and every theorem holds for every such environment.

  Conventions of the embedding.
  \<^item> A Python \<^verbatim>\<open>str\<close> is a \<open>string\<close> of UTF-8 bytes; the keywords, digits and
    separators the program looks for are ASCII, and no byte of a multi-byte UTF-8
    sequence is ASCII.
  \<^item> A Python float is a rational (\<open>rat\<close>), the missing marker \<^verbatim>\<open>NaN\<close>/\<^verbatim>\<open>NaT\<close> is the cell
    \<open>NaN\<close>; rounding of binary floating point is not modelled.
  \<^item> An exception is a value: a function that may raise returns
    \<open>py_exception + 'a\<close>, with \<open>Inl\<close> the exception. Only instances of
    \<^verbatim>\<open>Exception\<close> are modelled (not \<^verbatim>\<open>KeyboardInterrupt\<close> or \<^verbatim>\<open>SystemExit\<close>).
\<close>

subsection \<open>Data model\<close>

text \<open>
  A cell of a DataFrame: missing, a number, a text, or a timestamp (the month counted
  from 1970-01, as pandas counts monthly periods, and the offset inside the month).
\<close>

datatype cell = NaN | Num rat | Str string | Ts int nat

datatype dtype = Number | Object | Datetime

text \<open>A Series is its dtype and its cells; a DataFrame is its columns and its rows.\<close>

type_synonym series = "dtype \<times> cell list"

record table =
  columns :: "(string \<times> dtype) list"
  rows :: "cell list list"

datatype py_exception =
    FileNotFoundError string
  | ValueError string
  | TypeError string
  | KeyError string
  | LibraryError string

text \<open>\<^verbatim>\<open>str(e)\<close>: the message the exception was built with.\<close>

fun exc_str :: "py_exception \<Rightarrow> string" where
  "exc_str (FileNotFoundError m) = m"
| "exc_str (ValueError m) = m"
| "exc_str (TypeError m) = m"
| "exc_str (KeyError m) = m"
| "exc_str (LibraryError m) = m"

text \<open>The keyword arguments of \<^verbatim>\<open>pd.read_csv\<close> that differ between the calls
  (\<^verbatim>\<open>on_bad_lines="skip"\<close> is passed by all of them).\<close>

record read_opts =
  sep :: "string option"
  decimal :: string
  encoding :: string
  python_engine :: bool
  nrows :: "nat option"

text \<open>A chart the program asks matplotlib for: its kind, its title, its data
  (months with sum and count; categories with their value; columns with their mean).\<close>

datatype chart =
    MonthlyBar string "(int \<times> rat \<times> nat) list"
  | TopBarh string "(cell \<times> cell) list"
  | MeansBar string "(string \<times> cell) list"

text \<open>
  The external collaborators. \<open>'fs\<close> is the state of the file system. A call that can
  raise returns a sum; a call that writes returns the exception, if any, and the file
  system it leaves.
  \<^item> \<open>expanduser\<close>, \<open>path_exists\<close>, \<open>abspath\<close>, \<open>basename\<close>: \<^verbatim>\<open>os.path\<close>.
  \<^item> \<open>read_csv\<close>, \<open>to_csv\<close>: \<^verbatim>\<open>pd.read_csv\<close> and \<^verbatim>\<open>DataFrame.to_csv\<close>.
  \<^item> \<open>to_numeric\<close>: the parse of one string by \<^verbatim>\<open>pd.to_numeric\<close>.
  \<^item> \<open>cell_repr\<close>: \<^verbatim>\<open>str(x)\<close> of a cell that is not a text; \<open>dtype_name\<close>:
    \<^verbatim>\<open>str(series.dtype)\<close>.
  \<^item> \<open>date_parser\<close>: what \<^verbatim>\<open>pd.to_datetime(series, errors="coerce")\<close> makes of one cell
    of the series (month since 1970-01 and offset), \<open>None\<close> for a cell it cannot parse.
  \<^item> \<open>quantile\<close>: \<^verbatim>\<open>Series.quantile\<close> of a numeric series.
  \<^item> \<open>fmt_money\<close>: the format \<^verbatim>\<open>{x:,.2f}\<close>; \<open>fmt_percent k n\<close>: the text of
    \<^verbatim>\<open>round(k / n * 100, 1)\<close>.
  \<^item> \<open>now_report\<close>, \<open>now_chart\<close>: the clock, as the two \<^verbatim>\<open>strftime\<close> calls print it.
  \<^item> \<open>describe_markdown\<close>, \<open>monthly_markdown\<close>, \<open>top_markdown\<close>: the
    \<^verbatim>\<open>to_markdown\<close> renderings; \<open>top_by_value\<close>, \<open>top_by_count\<close>: the category rankings
    (\<^verbatim>\<open>groupby(...).sum().sort_values(ascending=False).head(10)\<close> and
    \<^verbatim>\<open>value_counts().head(10)\<close>).
  \<^item> \<open>type_error_text\<close>: the message of the \<^verbatim>\<open>TypeError\<close> pandas raises when a numeric
    reduction is asked of a series of that dtype.
  \<^item> \<open>render_chart\<close>: the matplotlib calls from \<^verbatim>\<open>plt.figure\<close> to \<^verbatim>\<open>plt.close\<close>.
\<close>

record 'fs env =
  expanduser :: "string \<Rightarrow> string"
  path_exists :: "'fs \<Rightarrow> string \<Rightarrow> bool"
  abspath :: "string \<Rightarrow> string"
  basename :: "string \<Rightarrow> string"
  read_csv :: "read_opts \<Rightarrow> string \<Rightarrow> 'fs \<Rightarrow> py_exception + table"
  to_csv :: "table \<Rightarrow> string \<Rightarrow> 'fs \<Rightarrow> py_exception option \<times> 'fs"
  to_numeric :: "string \<Rightarrow> rat option"
  cell_repr :: "cell \<Rightarrow> string"
  dtype_name :: "series \<Rightarrow> string"
  date_parser :: "cell list \<Rightarrow> cell \<Rightarrow> (int \<times> nat) option"
  quantile :: "cell list \<Rightarrow> rat \<Rightarrow> cell"
  fmt_money :: "cell \<Rightarrow> string"
  fmt_percent :: "nat \<Rightarrow> nat \<Rightarrow> string"
  now_report :: string
  now_chart :: string
  describe_markdown :: "table \<Rightarrow> py_exception + string"
  monthly_markdown :: "(int \<times> rat \<times> nat) list \<Rightarrow> py_exception + string"
  top_by_value :: "series \<Rightarrow> series \<Rightarrow> py_exception + (cell \<times> cell) list"
  top_by_count :: "series \<Rightarrow> py_exception + (cell \<times> cell) list"
  top_markdown :: "string \<Rightarrow> string option \<Rightarrow> (cell \<times> cell) list \<Rightarrow> py_exception + string"
  type_error_text :: "dtype \<Rightarrow> string"
  render_chart :: "chart \<Rightarrow> string \<Rightarrow> 'fs \<Rightarrow> py_exception option \<times> 'fs"

subsection \<open>Strings\<close>

text \<open>\<^verbatim>\<open>str.lower\<close> on the ASCII letters; every other byte is kept.\<close>

definition char_lower :: "char \<Rightarrow> char" where
  "char_lower c =
     (case map_of (zip ''ABCDEFGHIJKLMNOPQRSTUVWXYZ'' ''abcdefghijklmnopqrstuvwxyz'') c of
        Some d \<Rightarrow> d
      | None \<Rightarrow> c)"

definition lower :: "string \<Rightarrow> string" where
  "lower s = map char_lower s"

text \<open>\<^verbatim>\<open>k in s\<close> for two strings: \<open>k\<close> occurs in \<open>s\<close> as a contiguous run.\<close>

fun str_contains :: "string \<Rightarrow> string \<Rightarrow> bool" where
  "str_contains k [] = (k = [])"
| "str_contains k (c # cs) = (prefix k (c # cs) \<or> str_contains k cs)"

text \<open>Truth value of \<^verbatim>\<open>None\<close> or a string, as \<^verbatim>\<open>if value_col:\<close> tests it.\<close>

fun truthy :: "string option \<Rightarrow> bool" where
  "truthy None = False"
| "truthy (Some s) = (s \<noteq> [])"

text \<open>Decimal digits of a natural number, and Python's \<^verbatim>\<open>{n:,}\<close>.\<close>

definition digit_char :: "nat \<Rightarrow> char" where
  "digit_char d = ''0123456789'' ! (d mod 10)"

fun str_nat :: "nat \<Rightarrow> string" where
  "str_nat n = (if n < 10 then [digit_char n] else str_nat (n div 10) @ [digit_char n])"

fun fmt_thousands :: "nat \<Rightarrow> string" where
  "fmt_thousands n =
     (if n < 1000 then str_nat n
      else fmt_thousands (n div 1000) @ '','' @
           [digit_char (n div 100), digit_char (n div 10), digit_char n])"

subsection \<open>Numeric Coercion Filter: \<^verbatim>\<open>coerce_numeric_if_majority\<close>\<close>

text \<open>\<^verbatim>\<open>series.astype(str)\<close>, cell by cell: a text is itself, a missing cell is
  \<^verbatim>\<open>"nan"\<close>, anything else is what Python prints for it.\<close>

definition astype_str :: "'fs env \<Rightarrow> cell \<Rightarrow> string" where
  "astype_str env c = (case c of Str s \<Rightarrow> s | NaN \<Rightarrow> ''nan'' | _ \<Rightarrow> cell_repr env c)"

text \<open>The class \<^verbatim>\<open>[\d.,\-]\<close> of the regular expression \<^verbatim>\<open>[^\d.,\-]\<close>.\<close>

definition numeric_char :: "char \<Rightarrow> bool" where
  "numeric_char c = (c \<in> set ''0123456789.,-'')"

text \<open>\<^verbatim>\<open>.str.replace(r"[^\d.,\-]", "", regex=True).str.replace(",", ".")\<close>\<close>

definition strip_non_numeric :: "string \<Rightarrow> string" where
  "strip_non_numeric s = filter numeric_char s"

definition comma_to_period :: "string \<Rightarrow> string" where
  "comma_to_period s = map (\<lambda>c. if c = CHR '','' then CHR ''.'' else c) s"

definition normalise_cell :: "'fs env \<Rightarrow> cell \<Rightarrow> string" where
  "normalise_cell env c = comma_to_period (strip_non_numeric (astype_str env c))"

text \<open>\<^verbatim>\<open>pd.to_numeric(..., errors="coerce")\<close> on one string: a number, or missing.\<close>

definition coerce_cell :: "'fs env \<Rightarrow> string \<Rightarrow> cell" where
  "coerce_cell env s = (case to_numeric env s of Some x \<Rightarrow> Num x | None \<Rightarrow> NaN)"

definition notna :: "cell \<Rightarrow> bool" where
  "notna c = (c \<noteq> NaN)"

text \<open>\<^verbatim>\<open>converted\<close> and \<^verbatim>\<open>valid_ratio\<close>, the two locals of the function.\<close>

definition converted :: "'fs env \<Rightarrow> series \<Rightarrow> cell list" where
  "converted env series = map (\<lambda>c. coerce_cell env (normalise_cell env c)) (snd series)"

definition valid_ratio :: "'fs env \<Rightarrow> series \<Rightarrow> rat" where
  "valid_ratio env series =
     rat_of_nat (length (filter notna (converted env series)))
     / rat_of_nat (max (length (snd series)) 1)"

definition coerce_numeric_if_majority :: "'fs env \<Rightarrow> series \<Rightarrow> rat \<Rightarrow> series" where
  "coerce_numeric_if_majority env series threshold =
     (if valid_ratio env series \<ge> threshold then (Number, converted env series) else series)"

text \<open>
  Modelled from the spec: the "floating-point parse" of a normalised cell
  (\<^verbatim>\<open>pandas.to_numeric\<close> is not in the repository). It reads an optional minus sign,
  digits, and an optional period followed by digits, with at least one digit. It is
  used to run the filter on concrete columns; the theorems hold for every parser.
\<close>

definition digit_val :: "char \<Rightarrow> nat option" where
  "digit_val c = map_of (zip ''0123456789'' [0, 1, 2, 3, 4, 5, 6, 7, 8, 9]) c"

fun digits_val :: "nat \<Rightarrow> string \<Rightarrow> nat option" where
  "digits_val acc [] = Some acc"
| "digits_val acc (c # cs) =
     (case digit_val c of None \<Rightarrow> None | Some d \<Rightarrow> digits_val (10 * acc + d) cs)"

definition parse_unsigned :: "string \<Rightarrow> rat option" where
  "parse_unsigned s =
     (let ip = takeWhile (\<lambda>c. c \<noteq> CHR ''.'') s;
          rest = dropWhile (\<lambda>c. c \<noteq> CHR ''.'') s;
          fp = (case rest of [] \<Rightarrow> [] | _ # r \<Rightarrow> r)
      in if ip = [] \<and> fp = [] then None
         else case (digits_val 0 ip, digits_val 0 fp) of
                (Some a, Some b) \<Rightarrow> Some (rat_of_nat a + rat_of_nat b / 10 ^ length fp)
              | _ \<Rightarrow> None)"

definition parse_decimal :: "string \<Rightarrow> rat option" where
  "parse_decimal s =
     (case s of
        CHR ''-'' # r \<Rightarrow> map_option uminus (parse_unsigned r)
      | _ \<Rightarrow> parse_unsigned s)"

subsection \<open>Column Role Detector: \<^verbatim>\<open>detectar_colunas\<close>\<close>

definition value_keywords :: "string list" where
  "value_keywords = [''total'', ''valor'', ''receita'', ''faturamento'', ''preco'', ''price'']"

definition date_keywords :: "string list" where
  "date_keywords = [''data'', ''date'', ''dt_'', ''_dt'', ''periodo'']"

definition category_keywords :: "string list" where
  "category_keywords = [''categoria'', ''produto'', ''vendedor'', ''status'', ''cidade'']"

text \<open>\<^verbatim>\<open>any(k in c.lower() for k in kws)\<close>\<close>

definition name_matches :: "string list \<Rightarrow> string \<Rightarrow> bool" where
  "name_matches kws c = list_ex (\<lambda>k. str_contains k (lower c)) kws"

text \<open>\<^verbatim>\<open>next((c for c in df.columns if ...), None)\<close> is \<open>find\<close>.\<close>

definition detectar_colunas :: "table \<Rightarrow> string option \<times> string option \<times> string option" where
  "detectar_colunas df =
     (let value_col = find (name_matches value_keywords) (map fst (columns df));
          date_col = find (name_matches date_keywords) (map fst (columns df));
          cat_col = find (name_matches category_keywords) (map fst (columns df))
      in (value_col, date_col, cat_col))"

subsection \<open>Tables\<close>

text \<open>A row shorter than the header reads as missing beyond its end, as
  \<^verbatim>\<open>read_csv\<close> pads it.\<close>

definition cell_at :: "cell list \<Rightarrow> nat \<Rightarrow> cell" where
  "cell_at r j = (if j < length r then r ! j else NaN)"

text \<open>The position of the first column of that name.\<close>

fun column_index :: "string \<Rightarrow> (string \<times> dtype) list \<Rightarrow> nat option" where
  "column_index name [] = None"
| "column_index name (c # cs) =
     (if fst c = name then Some 0 else map_option Suc (column_index name cs))"

text \<open>\<^verbatim>\<open>df[col]\<close>: the series of that name, or \<^verbatim>\<open>KeyError\<close>.\<close>

definition get_column :: "table \<Rightarrow> string \<Rightarrow> py_exception + series" where
  "get_column df name =
     (case column_index name (columns df) of
        None \<Rightarrow> Inl (KeyError name)
      | Some j \<Rightarrow> Inr (snd (columns df ! j), map (\<lambda>r. cell_at r j) (rows df)))"

text \<open>\<^verbatim>\<open>df[col] = series\<close> for a column the table has (the program assigns to no
  other): the column takes the dtype and the cells of the series.\<close>

definition set_column :: "table \<Rightarrow> string \<Rightarrow> series \<Rightarrow> table" where
  "set_column df name s =
     (case column_index name (columns df) of
        None \<Rightarrow> df
      | Some j \<Rightarrow>
          df\<lparr>columns := (columns df)[j := (name, fst s)],
             rows := map (\<lambda>(r, c). r[j := c]) (zip (rows df) (snd s))\<rparr>)"

text \<open>\<^verbatim>\<open>df.drop_duplicates()\<close>: a row equal to an earlier row goes, the first
  occurrence stays (missing cells compare equal).\<close>

fun drop_seen :: "'a list \<Rightarrow> 'a list \<Rightarrow> 'a list" where
  "drop_seen seen [] = []"
| "drop_seen seen (r # rs) =
     (if r \<in> set seen then drop_seen seen rs else r # drop_seen (r # seen) rs)"

definition drop_duplicates :: "table \<Rightarrow> table" where
  "drop_duplicates df = df\<lparr>rows := drop_seen [] (rows df)\<rparr>"

text \<open>\<^verbatim>\<open>df.dropna(how="all")\<close>: a row whose cells are all missing goes.\<close>

definition all_missing :: "cell list \<Rightarrow> bool" where
  "all_missing r = list_all (\<lambda>c. c = NaN) r"

definition dropna_all :: "table \<Rightarrow> table" where
  "dropna_all df = df\<lparr>rows := filter (\<lambda>r. \<not> all_missing r) (rows df)\<rparr>"

text \<open>\<^verbatim>\<open>reset_index(drop=True)\<close> renumbers the row labels, which the embedding does
  not keep: rows are addressed by position.\<close>

definition reset_index :: "table \<Rightarrow> table" where
  "reset_index df = df"

text \<open>\<^verbatim>\<open>df.select_dtypes(include=...)\<close>: the columns of that dtype, in order.\<close>

definition dtype_positions :: "dtype \<Rightarrow> table \<Rightarrow> nat list" where
  "dtype_positions dt df = filter (\<lambda>j. snd (columns df ! j) = dt) [0..<length (columns df)]"

definition select_dtypes :: "dtype \<Rightarrow> table \<Rightarrow> table" where
  "select_dtypes dt df =
     \<lparr>columns = map (\<lambda>j. columns df ! j) (dtype_positions dt df),
      rows = map (\<lambda>r. map (cell_at r) (dtype_positions dt df)) (rows df)\<rparr>"

text \<open>\<^verbatim>\<open>num_df[cols_to_show]\<close> with \<^verbatim>\<open>cols_to_show = num_df.columns[:8]\<close>.\<close>

definition first_columns :: "nat \<Rightarrow> table \<Rightarrow> table" where
  "first_columns n df = \<lparr>columns = take n (columns df), rows = map (take n) (rows df)\<rparr>"

text \<open>\<^verbatim>\<open>df.empty\<close>: no column or no row.\<close>

definition empty_table :: "table \<Rightarrow> bool" where
  "empty_table df = (columns df = [] \<or> rows df = [])"

subsection \<open>Ingestion Pipeline: \<^verbatim>\<open>load_csv_robust\<close>\<close>

definition primary_opts :: "string \<Rightarrow> read_opts" where
  "primary_opts enc =
     \<lparr>sep = Some '';'', decimal = '','', encoding = enc, python_engine = False,
      nrows = None\<rparr>"

definition fallback_opts :: read_opts where
  "fallback_opts =
     \<lparr>sep = None, decimal = ''.'', encoding = ''utf-8'', python_engine = True,
      nrows = None\<rparr>"

text \<open>
  The loop over the encodings. The result carries the list of the \<^verbatim>\<open>read_csv\<close> calls
  made, in order, so that what was attempted can be stated. An exception of an attempt is
  swallowed (\<^verbatim>\<open>except (UnicodeDecodeError, Exception): continue\<close>).
\<close>

fun try_encodings ::
  "'fs env \<Rightarrow> string \<Rightarrow> 'fs \<Rightarrow> string list \<Rightarrow> read_opts list \<times> table option" where
  "try_encodings env file_path fs [] = ([], None)"
| "try_encodings env file_path fs (enc # encs) =
     (case read_csv env (primary_opts enc) file_path fs of
        Inr df \<Rightarrow> ([primary_opts enc], Some df)
      | Inl e \<Rightarrow>
          (let (attempts, df) = try_encodings env file_path fs encs
           in (primary_opts enc # attempts, df)))"

text \<open>The loop \<^verbatim>\<open>for col in ...: df[col] = coerce_numeric_if_majority(df[col])\<close>, the
  threshold at its default 0.7.\<close>

fun coerce_columns :: "'fs env \<Rightarrow> string list \<Rightarrow> table \<Rightarrow> py_exception + table" where
  "coerce_columns env [] df = Inr df"
| "coerce_columns env (col # cols) df =
     (case get_column df col of
        Inl e \<Rightarrow> Inl e
      | Inr s \<Rightarrow>
          coerce_columns env cols (set_column df col (coerce_numeric_if_majority env s (7 / 10))))"

text \<open>What follows a successful read: duplicates and empty rows go, then the text
  columns are coerced.\<close>

definition clean_and_coerce :: "'fs env \<Rightarrow> table \<Rightarrow> py_exception + table" where
  "clean_and_coerce env df0 =
     (let df = dropna_all (drop_duplicates df0)
      in coerce_columns env (map fst (columns (select_dtypes Object df))) df)"

text \<open>The messages are \<^verbatim>\<open>"Arquivo nao encontrado: "\<close> and
  \<^verbatim>\<open>"Nao foi possivel ler o arquivo: "\<close> with their accents, in UTF-8.\<close>

definition msg_not_found :: string where
  "msg_not_found = ''Arquivo n'' @ [CHR 0xC3, CHR 0xA3] @ ''o encontrado: ''"

definition msg_unreadable :: string where
  "msg_unreadable =
     ''N'' @ [CHR 0xC3, CHR 0xA3] @ ''o foi poss'' @ [CHR 0xC3, CHR 0xAD] @ ''vel ler o arquivo: ''"

definition load_csv_trace ::
  "'fs env \<Rightarrow> string \<Rightarrow> 'fs \<Rightarrow> read_opts list \<times> (py_exception + table)" where
  "load_csv_trace env file_path0 fs =
     (let file_path = expanduser env file_path0 in
      if \<not> path_exists env fs file_path
      then ([], Inl (FileNotFoundError (msg_not_found @ file_path)))
      else
        (let (attempts, df) =
               try_encodings env file_path fs [''utf-8'', ''latin-1'', ''cp1252'']
         in case df of
              Some df \<Rightarrow> (attempts, clean_and_coerce env df)
            | None \<Rightarrow>
                (case read_csv env fallback_opts file_path fs of
                   Inl e \<Rightarrow>
                     (attempts @ [fallback_opts],
                      Inl (ValueError (msg_unreadable @ exc_str e)))
                 | Inr df \<Rightarrow> (attempts @ [fallback_opts], clean_and_coerce env df))))"

definition load_csv_robust :: "'fs env \<Rightarrow> string \<Rightarrow> 'fs \<Rightarrow> py_exception + table" where
  "load_csv_robust env file_path fs = snd (load_csv_trace env file_path fs)"

subsection \<open>Cleaner: \<^verbatim>\<open>clean_csv\<close>\<close>

text \<open>The four lines of the status text, the counts printed with \<^verbatim>\<open>{n:,}\<close>.\<close>

definition clean_message :: "string \<Rightarrow> nat \<Rightarrow> nat \<Rightarrow> string" where
  "clean_message output_path linhas_antes linhas_depois =
     [CHR 0xE2, CHR 0x9C, CHR 0x85] @ '' CSV limpo salvo em: '' @ output_path
     @ [CHR 0x0A] @ ''   Linhas antes: '' @ fmt_thousands linhas_antes
     @ [CHR 0x0A] @ ''   Linhas depois: '' @ fmt_thousands linhas_depois
     @ [CHR 0x0A] @ ''   Removidas: '' @ fmt_thousands (linhas_antes - linhas_depois)
     @ '' (duplicadas/vazias)''"

text \<open>The body of the \<^verbatim>\<open>try\<close>: the text it returns and the file system it leaves, or
  the exception and the file system at that point.\<close>

definition clean_csv_body ::
  "'fs env \<Rightarrow> string \<Rightarrow> string \<Rightarrow> 'fs \<Rightarrow> (py_exception + string) \<times> 'fs" where
  "clean_csv_body env file_path output_name fs =
     (case read_csv env (primary_opts ''utf-8'') file_path fs of
        Inl e \<Rightarrow> (Inl e, fs)
      | Inr df_raw \<Rightarrow>
          (let linhas_antes = length (rows df_raw);
               df_clean = reset_index (dropna_all (drop_duplicates df_raw));
               linhas_depois = length (rows df_clean);
               output_path = abspath env (''outputs/'' @ output_name)
           in case to_csv env df_clean output_path fs of
                (Some e, fs') \<Rightarrow> (Inl e, fs')
              | (None, fs') \<Rightarrow>
                  (Inr (clean_message output_path linhas_antes linhas_depois), fs')))"

definition clean_csv ::
  "'fs env \<Rightarrow> string \<Rightarrow> string \<Rightarrow> 'fs \<Rightarrow> (py_exception + string) \<times> 'fs" where
  "clean_csv env file_path output_name fs =
     (case clean_csv_body env file_path output_name fs of
        (Inr status, fs') \<Rightarrow> (Inr status, fs')
      | (Inl e, fs') \<Rightarrow>
          (Inr ([CHR 0xE2, CHR 0x9D, CHR 0x8C] @ '' Erro na limpeza: '' @ exc_str e), fs'))"

subsection \<open>Diagnostic Sampler: \<^verbatim>\<open>csv_info\<close>\<close>

text \<open>\<^verbatim>\<open>s[:n]\<close> counts characters, not bytes: a UTF-8 continuation byte
  (\<open>0x80\<close> to \<open>0xBF\<close>) stays with the character it belongs to.\<close>

definition continuation_byte :: "char \<Rightarrow> bool" where
  "continuation_byte c = (128 \<le> (of_char c :: nat) \<and> (of_char c :: nat) < 192)"

fun take_chars :: "nat \<Rightarrow> string \<Rightarrow> string" where
  "take_chars n [] = []"
| "take_chars n (c # cs) =
     (if continuation_byte c then c # take_chars n cs
      else case n of 0 \<Rightarrow> [] | Suc m \<Rightarrow> c # take_chars m cs)"

text \<open>\<^verbatim>\<open>str(x)\<close> of a cell.\<close>

definition str_cell :: "'fs env \<Rightarrow> cell \<Rightarrow> string" where
  "str_cell env c = (case c of Str s \<Rightarrow> s | _ \<Rightarrow> cell_repr env c)"

text \<open>One line of the table, for one column.\<close>

definition info_row :: "'fs env \<Rightarrow> table \<Rightarrow> string \<Rightarrow> py_exception + string" where
  "info_row env df col =
     (case get_column df col of
        Inl e \<Rightarrow> Inl e
      | Inr s \<Rightarrow>
          (let tipo = dtype_name env s;
               pct_nulo = fmt_percent env (length (filter (\<lambda>c. c = NaN) (snd s)))
                                      (length (rows df));
               exemplo = (case filter notna (snd s) of
                            [] \<Rightarrow> [CHR 0xE2, CHR 0x80, CHR 0x94]
                          | c # _ \<Rightarrow> str_cell env c)
           in Inr (''| '' @ col @ '' | '' @ tipo @ '' | '' @ pct_nulo @ ''% | ''
                   @ take_chars 30 exemplo @ '' |'' @ [CHR 0x0A])))"

fun info_rows :: "'fs env \<Rightarrow> table \<Rightarrow> string list \<Rightarrow> string \<Rightarrow> py_exception + string" where
  "info_rows env df [] info = Inr info"
| "info_rows env df (col # cols) info =
     (case info_row env df col of
        Inl e \<Rightarrow> Inl e
      | Inr line \<Rightarrow> info_rows env df cols (info @ line))"

definition csv_info_body :: "'fs env \<Rightarrow> string \<Rightarrow> 'fs \<Rightarrow> py_exception + string" where
  "csv_info_body env file_path0 fs =
     (let file_path = expanduser env file_path0 in
      case read_csv env ((primary_opts ''utf-8'')\<lparr>nrows := Some 1000\<rparr>) file_path fs of
        Inl e \<Rightarrow> Inl e
      | Inr df \<Rightarrow>
          info_rows env df (map fst (columns df))
            (''# '' @ [CHR 0xF0, CHR 0x9F, CHR 0x94, CHR 0x8D] @ '' Diagn''
             @ [CHR 0xC3, CHR 0xB3] @ ''stico: '' @ basename env file_path
             @ [CHR 0x0A, CHR 0x0A]
             @ ''**Linhas amostradas**: 1.000 | **Colunas**: ''
             @ str_nat (length (columns df)) @ [CHR 0x0A, CHR 0x0A]
             @ ''| Coluna | Tipo | % Nulos | Exemplo |'' @ [CHR 0x0A]
             @ ''|--------|------|---------|--------|'' @ [CHR 0x0A]))"

definition csv_info :: "'fs env \<Rightarrow> string \<Rightarrow> 'fs \<Rightarrow> py_exception + string" where
  "csv_info env file_path fs =
     (case csv_info_body env file_path fs of
        Inr info \<Rightarrow> Inr info
      | Inl e \<Rightarrow>
          Inr ([CHR 0xE2, CHR 0x9D, CHR 0x8C] @ '' Erro no diagn'' @ [CHR 0xC3, CHR 0xB3]
               @ ''stico: '' @ exc_str e))"

subsection \<open>Report Builder: \<^verbatim>\<open>analyze_csv\<close>\<close>

text \<open>
  Reductions of a series. The numbers of a series are its cells that hold one
  (\<^verbatim>\<open>skipna\<close>). Of a series that is not numeric pandas computes no sum, mean, monthly
  sum or comparison with a number: the embedding raises \<^verbatim>\<open>TypeError\<close> there, the message
  given by the environment.
\<close>

definition numbers :: "cell list \<Rightarrow> rat list" where
  "numbers cells = concat (map (\<lambda>c. case c of Num x \<Rightarrow> [x] | _ \<Rightarrow> []) cells)"

definition mean_cell :: "cell list \<Rightarrow> cell" where
  "mean_cell cells =
     (case numbers cells of
        [] \<Rightarrow> NaN
      | x # xs \<Rightarrow> Num (sum_list (x # xs) / rat_of_nat (length (x # xs))))"

definition max_cell :: "cell list \<Rightarrow> cell" where
  "max_cell cells = (case numbers cells of [] \<Rightarrow> NaN | x # xs \<Rightarrow> Num (fold max xs x))"

definition numeric_series :: "'fs env \<Rightarrow> series \<Rightarrow> py_exception + cell list" where
  "numeric_series env s =
     (if fst s = Number then Inr (snd s) else Inl (TypeError (type_error_text env (fst s))))"

text \<open>Arithmetic and comparison of floats with the missing value: an operation on
  \<^verbatim>\<open>NaN\<close> is \<^verbatim>\<open>NaN\<close>, a comparison with \<^verbatim>\<open>NaN\<close> is false.\<close>

fun cell_minus :: "cell \<Rightarrow> cell \<Rightarrow> cell" where
  "cell_minus (Num a) (Num b) = Num (a - b)"
| "cell_minus _ _ = NaN"

fun cell_plus :: "cell \<Rightarrow> cell \<Rightarrow> cell" where
  "cell_plus (Num a) (Num b) = Num (a + b)"
| "cell_plus _ _ = NaN"

fun cell_times :: "rat \<Rightarrow> cell \<Rightarrow> cell" where
  "cell_times k (Num a) = Num (k * a)"
| "cell_times k _ = NaN"

fun cell_less :: "cell \<Rightarrow> cell \<Rightarrow> bool" where
  "cell_less (Num a) (Num b) = (a < b)"
| "cell_less _ _ = False"

text \<open>The head of the report: title, file, date, and the line
  \<^verbatim>\<open>**Linhas**: {len(df):,} | **Colunas**: {len(df.columns)}\<close>.\<close>

definition report_header :: "'fs env \<Rightarrow> string \<Rightarrow> table \<Rightarrow> string" where
  "report_header env file_path df =
     ''# '' @ [CHR 0xF0, CHR 0x9F, CHR 0x93, CHR 0x8A] @ '' DataClaw Analysis'' @ [CHR 0x0A]
     @ ''**Arquivo**: '' @ basename env file_path @ [CHR 0x0A]
     @ ''**Data**: '' @ now_report env @ [CHR 0x0A]
     @ ''**Linhas**: '' @ fmt_thousands (length (rows df))
     @ '' | **Colunas**: '' @ str_nat (length (columns df)) @ [CHR 0x0A, CHR 0x0A]"

text \<open>"Resumo Estatistico": \<^verbatim>\<open>describe()\<close> of at most the first 8 numeric columns.\<close>

definition summary_section :: "'fs env \<Rightarrow> table \<Rightarrow> py_exception + string" where
  "summary_section env num_df =
     (if \<not> empty_table num_df then
        (case describe_markdown env (first_columns 8 num_df) of
           Inl e \<Rightarrow> Inl e
         | Inr md \<Rightarrow>
             Inr (''## Resumo Estat'' @ [CHR 0xC3, CHR 0xAD] @ ''stico'' @ [CHR 0x0A] @ md
                  @ (if length (columns num_df) > 8
                     then [CHR 0x0A] @ ''*Exibindo ''
                          @ str_nat (length (columns (first_columns 8 num_df))) @ '' de ''
                          @ str_nat (length (columns num_df)) @ '' colunas num''
                          @ [CHR 0xC3, CHR 0xA9] @ ''ricas.*'' @ [CHR 0x0A]
                     else [])
                  @ [CHR 0x0A, CHR 0x0A]))
      else Inr [])"

text \<open>"Financeiro": sum, mean and maximum of the value column.\<close>

definition financial_section ::
  "'fs env \<Rightarrow> table \<Rightarrow> string option \<Rightarrow> py_exception + string" where
  "financial_section env df value_col =
     (if truthy value_col then
        (case get_column df (the value_col) of
           Inl e \<Rightarrow> Inl e
         | Inr s \<Rightarrow>
             (case numeric_series env s of
                Inl e \<Rightarrow> Inl e
              | Inr cells \<Rightarrow>
                  (let total = Num (sum_list (numbers cells));
                       media = mean_cell cells;
                       maximo = max_cell cells
                   in Inr (''## '' @ [CHR 0xF0, CHR 0x9F, CHR 0x92, CHR 0xB0]
                           @ '' Financeiro ('' @ the value_col @ '')'' @ [CHR 0x0A]
                           @ ''- **Total**: R$ '' @ fmt_money env total @ [CHR 0x0A]
                           @ ''- **M'' @ [CHR 0xC3, CHR 0xA9] @ ''dia por venda**: R$ ''
                           @ fmt_money env media @ [CHR 0x0A]
                           @ ''- **Maior venda**: R$ '' @ fmt_money env maximo
                           @ [CHR 0x0A, CHR 0x0A]))))
      else Inr [])"

text \<open>\<^verbatim>\<open>pd.to_datetime(series, errors="coerce")\<close>: a cell that does not parse is
  missing.\<close>

definition to_datetime :: "'fs env \<Rightarrow> series \<Rightarrow> series" where
  "to_datetime env s =
     (Datetime,
      map (\<lambda>c. case date_parser env (snd s) c of Some (m, k) \<Rightarrow> Ts m k | None \<Rightarrow> NaN) (snd s))"

text \<open>\<^verbatim>\<open>df[valid_dates]\<close> keyed by \<^verbatim>\<open>df[date_col].dt.to_period("M")\<close>: of every row with
  a date, the month and the value cell.\<close>

definition month_rows :: "cell list \<Rightarrow> cell list \<Rightarrow> (int \<times> cell) list" where
  "month_rows dates vals =
     concat (map (\<lambda>(d, v). case d of Ts m k \<Rightarrow> [(m, v)] | _ \<Rightarrow> []) (zip dates vals))"

text \<open>\<^verbatim>\<open>.groupby(...)[value_col].agg(["sum", "count"])\<close>: one line per month, the months
  ascending, with the sum and the count of the values that are not missing.\<close>

definition group_months :: "(int \<times> cell) list \<Rightarrow> (int \<times> rat \<times> nat) list" where
  "group_months mrows =
     map (\<lambda>m. (m, sum_list (numbers (map snd (filter (\<lambda>r. fst r = m) mrows))),
                  length (numbers (map snd (filter (\<lambda>r. fst r = m) mrows)))))
         (sort (remdups (map fst mrows)))"

text \<open>\<^verbatim>\<open>.tail(n)\<close>: the last \<open>n\<close> lines.\<close>

definition tail :: "nat \<Rightarrow> 'a list \<Rightarrow> 'a list" where
  "tail n xs = drop (length xs - n) xs"

text \<open>"Tendencia Mensal". It returns its text, the table with the date column
  replaced by its parse, whether a date was valid, and the monthly table.\<close>

definition trend_section ::
  "'fs env \<Rightarrow> table \<Rightarrow> string option \<Rightarrow> string option \<Rightarrow>
     py_exception + (string \<times> table \<times> bool \<times> (int \<times> rat \<times> nat) list)" where
  "trend_section env df value_col date_col =
     (if truthy date_col \<and> truthy value_col then
        (case get_column df (the date_col) of
           Inl e \<Rightarrow> Inl e
         | Inr s \<Rightarrow>
             (let parsed = to_datetime env s;
                  df1 = set_column df (the date_col) parsed;
                  valid_dates = map notna (snd parsed);
                  line = [CHR 0xE2, CHR 0x9A, CHR 0xA0, CHR 0xEF, CHR 0xB8, CHR 0x8F]
                         @ '' Datas inv'' @ [CHR 0xC3, CHR 0xA1] @ ''lidas ignoradas: ''
                         @ fmt_thousands (length (filter Not valid_dates))
                         @ '' linhas'' @ [CHR 0x0A, CHR 0x0A]
              in if length (filter id valid_dates) > 0 then
                   (case get_column df1 (the value_col) of
                      Inl e \<Rightarrow> Inl e
                    | Inr vs \<Rightarrow>
                        (case numeric_series env vs of
                           Inl e \<Rightarrow> Inl e
                         | Inr vals \<Rightarrow>
                             (let monthly = tail 12 (group_months (month_rows (snd parsed) vals))
                              in case monthly_markdown env monthly of
                                   Inl e \<Rightarrow> Inl e
                                 | Inr md \<Rightarrow>
                                     Inr (line @ ''## '' @ [CHR 0xF0, CHR 0x9F, CHR 0x93, CHR 0x85]
                                          @ '' Tend'' @ [CHR 0xC3, CHR 0xAA] @ ''ncia Mensal (''
                                          @ [CHR 0xC3, CHR 0xBA] @ ''ltimos 12 meses)''
                                          @ [CHR 0x0A] @ md @ [CHR 0x0A, CHR 0x0A],
                                          df1, True, monthly))))
                 else Inr (line, df1, False, [])))
      else Inr ([], df, False, []))"

text \<open>"Top 10 por ...": the ranking by summed value, or by count without a value
  column.\<close>

definition category_section ::
  "'fs env \<Rightarrow> table \<Rightarrow> string option \<Rightarrow> string option \<Rightarrow>
     py_exception + (string \<times> (cell \<times> cell) list)" where
  "category_section env df value_col cat_col =
     (if truthy cat_col then
        (case get_column df (the cat_col) of
           Inl e \<Rightarrow> Inl e
         | Inr cs \<Rightarrow>
             (case (if truthy value_col
                    then (case get_column df (the value_col) of
                            Inl e \<Rightarrow> Inl e
                          | Inr vs \<Rightarrow> top_by_value env cs vs)
                    else top_by_count env cs) of
                Inl e \<Rightarrow> Inl e
              | Inr top10 \<Rightarrow>
                  (case top_markdown env (the cat_col)
                          (if truthy value_col then value_col else None) top10 of
                     Inl e \<Rightarrow> Inl e
                   | Inr md \<Rightarrow>
                       Inr (''## '' @ [CHR 0xF0, CHR 0x9F, CHR 0x8F, CHR 0xB7, CHR 0xEF,
                                       CHR 0xB8, CHR 0x8F]
                            @ '' Top 10 por '' @ the cat_col @ [CHR 0x0A] @ md
                            @ [CHR 0x0A, CHR 0x0A], top10))))
      else Inr ([], []))"

text \<open>"Outliers Detectados": the bounds \<open>q1 - 1.5 * iqr\<close> and \<open>q3 + 1.5 * iqr\<close>, the rows
  outside them, their number, and the bounds if there is one.\<close>

definition outlier_bounds :: "'fs env \<Rightarrow> cell list \<Rightarrow> cell \<times> cell" where
  "outlier_bounds env vals =
     (let q1 = quantile env vals (1 / 4);
          q3 = quantile env vals (3 / 4);
          iqr = cell_minus q3 q1
      in (cell_minus q1 (cell_times (3 / 2) iqr), cell_plus q3 (cell_times (3 / 2) iqr)))"

definition is_outlier :: "cell \<times> cell \<Rightarrow> cell \<Rightarrow> bool" where
  "is_outlier bounds c = (cell_less c (fst bounds) \<or> cell_less (snd bounds) c)"

definition outliers :: "'fs env \<Rightarrow> cell list \<Rightarrow> cell list" where
  "outliers env vals = filter (is_outlier (outlier_bounds env vals)) vals"

definition outlier_section ::
  "'fs env \<Rightarrow> table \<Rightarrow> string option \<Rightarrow> py_exception + string" where
  "outlier_section env df value_col =
     (if truthy value_col then
        (case get_column df (the value_col) of
           Inl e \<Rightarrow> Inl e
         | Inr s \<Rightarrow>
             (case numeric_series env s of
                Inl e \<Rightarrow> Inl e
              | Inr vals \<Rightarrow>
                  Inr (''## '' @ [CHR 0xE2, CHR 0x9A, CHR 0xA0, CHR 0xEF, CHR 0xB8, CHR 0x8F]
                       @ '' Outliers Detectados'' @ [CHR 0x0A]
                       @ ''- '' @ fmt_thousands (length (outliers env vals))
                       @ '' transa'' @ [CHR 0xC3, CHR 0xA7, CHR 0xC3, CHR 0xB5]
                       @ ''es fora do padr'' @ [CHR 0xC3, CHR 0xA3] @ ''o (m''
                       @ [CHR 0xC3, CHR 0xA9] @ ''todo IQR)'' @ [CHR 0x0A]
                       @ (if length (outliers env vals) > 0
                          then ''- Faixa normal: R$ ''
                               @ fmt_money env (fst (outlier_bounds env vals)) @ '' a R$ ''
                               @ fmt_money env (snd (outlier_bounds env vals))
                               @ [CHR 0x0A, CHR 0x0A]
                          else []))))
      else Inr [])"

text \<open>"Pergunta": the caller's question, and a fixed sentence.\<close>

definition question_section :: "string \<Rightarrow> string" where
  "question_section pergunta =
     ''## '' @ [CHR 0xF0, CHR 0x9F, CHR 0xA4, CHR 0x96] @ '' Pergunta: '' @ pergunta @ [CHR 0x0A]
     @ ''An'' @ [CHR 0xC3, CHR 0xA1] @ ''lise acima responde com dados precisos. Solicite m''
     @ [CHR 0xC3, CHR 0xA9] @ ''tricas espec'' @ [CHR 0xC3, CHR 0xAD] @ ''ficas se necess''
     @ [CHR 0xC3, CHR 0xA1] @ ''rio.'' @ [CHR 0x0A, CHR 0x0A]"

text \<open>\<^verbatim>\<open>num_df.mean()\<close>: the mean of every column.\<close>

definition column_means :: "table \<Rightarrow> (string \<times> cell) list" where
  "column_means df =
     map (\<lambda>j. (fst (columns df ! j), mean_cell (map (\<lambda>r. cell_at r j) (rows df))))
         [0..<length (columns df)]"

text \<open>The \<^verbatim>\<open>if\<close>/\<^verbatim>\<open>elif\<close>/\<^verbatim>\<open>else\<close> that picks what is plotted.\<close>

definition choose_chart ::
  "string option \<Rightarrow> string option \<Rightarrow> string option \<Rightarrow> bool \<Rightarrow>
     (int \<times> rat \<times> nat) list \<Rightarrow> (cell \<times> cell) list \<Rightarrow> table \<Rightarrow> chart" where
  "choose_chart value_col date_col cat_col has_valid monthly top10 num_df =
     (if truthy date_col \<and> truthy value_col \<and> has_valid then
        MonthlyBar (''Faturamento Mensal '' @ [CHR 0xE2, CHR 0x80, CHR 0x94] @ '' ''
                    @ the value_col) monthly
      else if truthy cat_col \<and> truthy value_col then
        TopBarh (''Top 10 '' @ the cat_col @ '' por '' @ the value_col) top10
      else
        MeansBar (''M'' @ [CHR 0xC3, CHR 0xA9] @ ''dias das colunas num''
                  @ [CHR 0xC3, CHR 0xA9] @ ''ricas'') (column_means num_df))"

text \<open>The inner \<^verbatim>\<open>try\<close>: the chart is rendered and saved, and the report gets the path;
  if that raises, the report gets a warning instead.\<close>

definition chart_section :: "'fs env \<Rightarrow> chart \<Rightarrow> 'fs \<Rightarrow> string \<times> 'fs" where
  "chart_section env ch fs =
     (let chart_path = abspath env (''outputs/'' @ ''chart_'' @ now_chart env @ ''.png'')
      in case render_chart env ch chart_path fs of
           (None, fs') \<Rightarrow>
             (''## '' @ [CHR 0xF0, CHR 0x9F, CHR 0x93, CHR 0x88] @ '' Gr'' @ [CHR 0xC3, CHR 0xA1]
              @ ''fico'' @ [CHR 0x0A] @ ''Salvo em: '' @ [CHR 0x60] @ chart_path
              @ [CHR 0x60, CHR 0x0A], fs')
         | (Some chart_err, fs') \<Rightarrow>
             ([CHR 0xE2, CHR 0x9A, CHR 0xA0, CHR 0xEF, CHR 0xB8, CHR 0x8F] @ '' Gr''
              @ [CHR 0xC3, CHR 0xA1] @ ''fico n'' @ [CHR 0xC3, CHR 0xA3] @ ''o gerado: ''
              @ exc_str chart_err @ [CHR 0x0A], fs'))"

text \<open>Everything of the outer \<^verbatim>\<open>try\<close> before the chart: the report so far and the
  chart to plot.\<close>

definition analyze_sections ::
  "'fs env \<Rightarrow> string \<Rightarrow> string \<Rightarrow> 'fs \<Rightarrow> py_exception + (string \<times> chart)" where
  "analyze_sections env file_path pergunta fs =
     (case load_csv_robust env file_path fs of
        Inl e \<Rightarrow> Inl e
      | Inr df \<Rightarrow>
          (let (value_col, date_col, cat_col) = detectar_colunas df;
               num_df = select_dtypes Number df
           in case summary_section env num_df of
                Inl e \<Rightarrow> Inl e
              | Inr stats \<Rightarrow>
           (case financial_section env df value_col of
                Inl e \<Rightarrow> Inl e
              | Inr fin \<Rightarrow>
           (case trend_section env df value_col date_col of
                Inl e \<Rightarrow> Inl e
              | Inr (trend, df1, has_valid, monthly) \<Rightarrow>
           (case category_section env df1 value_col cat_col of
                Inl e \<Rightarrow> Inl e
              | Inr (cats, top10) \<Rightarrow>
           (case outlier_section env df1 value_col of
                Inl e \<Rightarrow> Inl e
              | Inr outl \<Rightarrow>
                  Inr (report_header env file_path df @ stats @ fin @ trend @ cats @ outl
                       @ question_section pergunta,
                       choose_chart value_col date_col cat_col has_valid monthly top10
                         num_df)))))))"

definition analyze_csv_body ::
  "'fs env \<Rightarrow> string \<Rightarrow> string \<Rightarrow> 'fs \<Rightarrow> (py_exception + string) \<times> 'fs" where
  "analyze_csv_body env file_path pergunta fs =
     (case analyze_sections env file_path pergunta fs of
        Inl e \<Rightarrow> (Inl e, fs)
      | Inr (report, ch) \<Rightarrow>
          (let (chart_text, fs') = chart_section env ch fs in (Inr (report @ chart_text), fs')))"

definition analyze_csv ::
  "'fs env \<Rightarrow> string \<Rightarrow> string \<Rightarrow> 'fs \<Rightarrow> (py_exception + string) \<times> 'fs" where
  "analyze_csv env file_path pergunta fs =
     (case analyze_csv_body env file_path pergunta fs of
        (Inr report, fs') \<Rightarrow> (Inr report, fs')
      | (Inl e, fs') \<Rightarrow>
          (Inr ([CHR 0xE2, CHR 0x9D, CHR 0x8C] @ '' Erro na an'' @ [CHR 0xC3, CHR 0xA1]
                @ ''lise: '' @ exc_str e @ [CHR 0x0A]
                @ ''Dica: verifique o caminho do arquivo e se '' @ [CHR 0xC3, CHR 0xA9]
                @ '' um CSV v'' @ [CHR 0xC3, CHR 0xA1] @ ''lido.''), fs'))"

subsection \<open>A concrete environment\<close>

text \<open>
  To run the embedding on examples: the file system maps a path to what
  \<^verbatim>\<open>read_csv\<close> makes of the file under given options, writing a table makes a file that
  reads back as that table, numbers are parsed by \<open>parse_decimal\<close>, a date cell is valid
  when it already is a timestamp, quantiles interpolate linearly between the sorted
  numbers, and every rendering is the empty text.
\<close>

type_synonym mem_fs = "(string \<times> (read_opts \<Rightarrow> py_exception + table)) list"

definition linear_quantile :: "cell list \<Rightarrow> rat \<Rightarrow> cell" where
  "linear_quantile cells q =
     (let xs = sort (numbers cells) in
      if xs = [] then NaN
      else
        (let p = rat_of_nat (length xs - 1) * q;
             i = nat \<lfloor>p\<rfloor>
         in Num (xs ! i + (p - rat_of_nat i) * (xs ! min (i + 1) (length xs - 1) - xs ! i))))"

definition mem_env :: "mem_fs env" where
  "mem_env =
     \<lparr>expanduser = (\<lambda>p. p),
      path_exists = (\<lambda>fs p. map_of fs p \<noteq> None),
      abspath = (\<lambda>p. ''/srv/'' @ p),
      basename = (\<lambda>p. p),
      read_csv = (\<lambda>opts p fs. case map_of fs p of
                    None \<Rightarrow> Inl (FileNotFoundError p)
                  | Some f \<Rightarrow> f opts),
      to_csv = (\<lambda>t p fs. (None, (p, \<lambda>opts. Inr t) # fs)),
      to_numeric = parse_decimal,
      cell_repr = (\<lambda>c. ''?''),
      dtype_name = (\<lambda>s. ''?''),
      date_parser = (\<lambda>s c. case c of Ts m k \<Rightarrow> Some (m, k) | _ \<Rightarrow> None),
      quantile = linear_quantile,
      fmt_money = (\<lambda>c. ''?''),
      fmt_percent = (\<lambda>k n. ''?''),
      now_report = ''01/01/2025 00:00'',
      now_chart = ''20250101_000000'',
      describe_markdown = (\<lambda>t. Inr []),
      monthly_markdown = (\<lambda>m. Inr []),
      top_by_value = (\<lambda>cs vs. Inr (zip (snd cs) (snd vs))),
      top_by_count = (\<lambda>cs. Inr (map (\<lambda>c. (c, Num 1)) (snd cs))),
      top_markdown = (\<lambda>c v xs. Inr []),
      type_error_text = (\<lambda>d. ''unsupported dtype''),
      render_chart = (\<lambda>ch p fs. (None, fs))\<rparr>"

text \<open>The sales header of the spec, in another order, over no rows.\<close>

definition shuffled_sales :: table where
  "shuffled_sales =
     \<lparr>columns = [(''Categoria'', Object), (''Total_Venda'', Number), (''ID_Venda'', Number),
                 (''Data'', Object)],
      rows = []\<rparr>"

text \<open>A small sales file: a duplicated row, an empty row, a date and an amount that do
  not parse. One file holding it does not decode as utf-8, a second file has no columns
  at all, a third file holds the same table in utf-8.\<close>

definition demo_table :: table where
  "demo_table =
     \<lparr>columns = [(''ID_Venda'', Number), (''Data'', Object), (''Total_Venda'', Object),
                 (''Categoria'', Object)],
      rows = [[Num 1, Ts 648 0, Str ''R$ 100,00'', Str ''A''],
              [Num 2, Ts 648 5, Str ''300'', Str ''B''],
              [Num 2, Ts 648 5, Str ''300'', Str ''B''],
              [NaN, NaN, NaN, NaN],
              [Num 3, Str ''invalida'', Str ''600,01'', Str ''A''],
              [Num 4, Ts 649 1, Str ''dez'', Str ''B'']]\<rparr>"

definition demo_fs :: mem_fs where
  "demo_fs =
     [(''vendas.csv'',
       \<lambda>opts. if encoding opts = ''utf-8'' then Inl (LibraryError ''invalid start byte'')
              else Inr demo_table),
      (''vazio.csv'', \<lambda>opts. Inl (LibraryError ''No columns to parse from file'')),
      (''sujo.csv'', \<lambda>opts. Inr demo_table)]"


text \<open>What the pipeline makes of the sales file: the duplicate and the empty row are
  gone and the amounts are numbers.\<close>

definition demo_loaded :: table where
  "demo_loaded =
     \<lparr>columns = [(''ID_Venda'', Number), (''Data'', Object), (''Total_Venda'', Number),
                 (''Categoria'', Object)],
      rows = [[Num 1, Ts 648 0, Num 100, Str ''A''],
              [Num 2, Ts 648 5, Num 300, Str ''B''],
              [Num 3, Str ''invalida'', Num (60001 / 100), Str ''A''],
              [Num 4, Ts 649 1, NaN, Str ''B'']]\<rparr>"

section \<open>Properties\<close>

subsection \<open>Helper lemmas\<close>

lemma str_contains_sublist: "str_contains k s \<longleftrightarrow> sublist k s"
  by (induction s) (auto simp: sublist_Cons_right)

lemma name_matches_iff: "name_matches kws c \<longleftrightarrow> (\<exists>k\<in>set kws. sublist k (lower c))"
  by (simp add: name_matches_def list_ex_iff str_contains_sublist)

lemma find_first_index:
  "find P xs = Some x \<Longrightarrow> \<exists>i<length xs. xs ! i = x \<and> P x \<and> (\<forall>j<i. \<not> P (xs ! j))"
  by (auto simp: find_Some_iff)

lemma find_unique:
  assumes "x \<in> set xs" and "P x" and "\<And>y. y \<in> set xs \<Longrightarrow> P y \<Longrightarrow> y = x"
  shows "find P xs = Some x"
proof (cases "find P xs")
  case None
  then have "\<not> P x" using assms(1) unfolding find_None_iff by blast
  then show ?thesis using assms(2) by blast
next
  case (Some y)
  then obtain i where i: "i < length xs" "P (xs ! i)" "y = xs ! i"
    unfolding find_Some_iff by blast
  then have "y \<in> set xs" by simp
  then have "y = x" using assms(3) i by blast
  then show ?thesis using Some by simp
qed

lemma sales_value_names:
  "\<not> name_matches value_keywords ''ID_Venda''"
  "\<not> name_matches value_keywords ''Data''"
  "name_matches value_keywords ''Total_Venda''"
  "\<not> name_matches value_keywords ''Categoria''"
  by (simp_all add: name_matches_def value_keywords_def lower_def char_lower_def)

lemma sales_date_names:
  "\<not> name_matches date_keywords ''ID_Venda''"
  "name_matches date_keywords ''Data''"
  "\<not> name_matches date_keywords ''Total_Venda''"
  "\<not> name_matches date_keywords ''Categoria''"
  by (simp_all add: name_matches_def date_keywords_def lower_def char_lower_def)

lemma sales_category_names:
  "\<not> name_matches category_keywords ''ID_Venda''"
  "\<not> name_matches category_keywords ''Data''"
  "\<not> name_matches category_keywords ''Total_Venda''"
  "name_matches category_keywords ''Categoria''"
  by (simp_all add: name_matches_def category_keywords_def lower_def char_lower_def)

lemma sales_columns_roles:
  assumes "mset cs = mset [''ID_Venda'', ''Data'', ''Total_Venda'', ''Categoria'']"
  shows "find (name_matches value_keywords) cs = Some ''Total_Venda''"
    and "find (name_matches date_keywords) cs = Some ''Data''"
    and "find (name_matches category_keywords) cs = Some ''Categoria''"
proof -
  have s: "set cs = {''ID_Venda'', ''Data'', ''Total_Venda'', ''Categoria''}"
    using mset_eq_setD[OF assms] by auto
  show "find (name_matches value_keywords) cs = Some ''Total_Venda''"
    by (rule find_unique) (use s sales_value_names in auto)
  show "find (name_matches date_keywords) cs = Some ''Data''"
    by (rule find_unique) (use s sales_date_names in auto)
  show "find (name_matches category_keywords) cs = Some ''Categoria''"
    by (rule find_unique) (use s sales_category_names in auto)
qed





subsection \<open>Numeric Coercion Filter\<close>





subsection \<open>Column Role Detector\<close>

text \<open>
  Claim C2. For every list of column names \<open>cs\<close> and each of the three roles (value,
  date, category) with its keyword list: the role is \<open>None\<close> exactly when no name of
  \<open>cs\<close>, lowercased, contains a keyword of the role; and when the role is a name, that
  name stands at some position of \<open>cs\<close>, contains a keyword, and no name before that
  position does. In particular, for every permutation of
  \<open>ID_Venda, Data, Total_Venda, Categoria\<close> the value role is \<open>Total_Venda\<close>, the date role
  is \<open>Data\<close> and the category role is \<open>Categoria\<close>.
\<close>

theorem detectar_colunas_first_match:
  assumes "detectar_colunas df = (value_col, date_col, cat_col)"
    and "cs = map fst (columns df)"
    and "(kws, role) \<in> {(value_keywords, value_col), (date_keywords, date_col),
                          (category_keywords, cat_col)}"
  shows "(role = None \<longleftrightarrow> (\<forall>c\<in>set cs. \<not> (\<exists>k\<in>set kws. sublist k (lower c))))
       \<and> (\<forall>n. role = Some n \<longrightarrow>
            (\<exists>i<length cs. cs ! i = n \<and> (\<exists>k\<in>set kws. sublist k (lower n))
               \<and> (\<forall>j<i. \<not> (\<exists>k\<in>set kws. sublist k (lower (cs ! j))))))
       \<and> (mset cs = mset [''ID_Venda'', ''Data'', ''Total_Venda'', ''Categoria''] \<longrightarrow>
            value_col = Some ''Total_Venda'' \<and> date_col = Some ''Data''
            \<and> cat_col = Some ''Categoria'')"
proof -
  have r: "role = find (name_matches kws) cs"
    using assms by (auto simp: detectar_colunas_def)
  have a: "role = None \<longleftrightarrow> (\<forall>c\<in>set cs. \<not> (\<exists>k\<in>set kws. sublist k (lower c)))"
    unfolding r by (auto simp: find_None_iff name_matches_iff)
  have b: "\<exists>i<length cs. cs ! i = n \<and> (\<exists>k\<in>set kws. sublist k (lower n))
               \<and> (\<forall>j<i. \<not> (\<exists>k\<in>set kws. sublist k (lower (cs ! j))))" if "role = Some n" for n
    using find_first_index[of "name_matches kws" cs n] that r
    by (simp add: name_matches_iff)
  have c: "value_col = Some ''Total_Venda'' \<and> date_col = Some ''Data''
           \<and> cat_col = Some ''Categoria''"
    if "mset cs = mset [''ID_Venda'', ''Data'', ''Total_Venda'', ''Categoria'']"
    using sales_columns_roles[OF that] assms(1,2) by (simp add: detectar_colunas_def)
  show ?thesis using a b c by blast
qed

theorem detectar_colunas_first_match_witness:
  "detectar_colunas shuffled_sales = (Some ''Total_Venda'', Some ''Data'', Some ''Categoria'')"
proof -
  obtain v d c where e: "detectar_colunas shuffled_sales = (v, d, c)"
    by (cases "detectar_colunas shuffled_sales")
  have m: "mset (map fst (columns shuffled_sales))
           = mset [''ID_Venda'', ''Data'', ''Total_Venda'', ''Categoria'']"
    by (simp add: shuffled_sales_def)
  have "v = Some ''Total_Venda'' \<and> d = Some ''Data'' \<and> c = Some ''Categoria''"
    using detectar_colunas_first_match[OF e refl, of value_keywords v] m by simp
  with e show ?thesis by simp
qed

text \<open>
  Claim C10. The detector reads the column names only: two tables with the same sequence
  of column names get the same roles, whatever their dtypes, their cells and their number
  of rows.
\<close>

theorem detectar_colunas_names_only:
  "map fst (columns df1) = map fst (columns df2) \<Longrightarrow> detectar_colunas df1 = detectar_colunas df2"
  by (simp add: detectar_colunas_def)

theorem detectar_colunas_names_only_witness:
  "detectar_colunas \<lparr>columns = [(''Data'', Object), (''Valor'', Object)], rows = []\<rparr>
   = detectar_colunas
       \<lparr>columns = [(''Data'', Datetime), (''Valor'', Number)],
        rows = [[Ts 648 0, Num 5], [NaN, Num 7]]\<rparr>"
  by (rule detectar_colunas_names_only) simp

subsection \<open>Encoding/Delimiter Resolver and Ingestion Pipeline\<close>

lemma column_index_Some:
  "name \<in> fst ` set cols \<Longrightarrow>
   \<exists>j. column_index name cols = Some j \<and> j < length cols \<and> fst (cols ! j) = name"
proof (induction cols)
  case Nil
  then show ?case by simp
next
  case (Cons c cols)
  show ?case
  proof (cases "fst c = name")
    case True
    then show ?thesis by simp
  next
    case False
    then have "name \<in> fst ` set cols" using Cons.prems by auto
    then obtain j where "column_index name cols = Some j" "j < length cols" "fst (cols ! j) = name"
      using Cons.IH by blast
    then show ?thesis using False by simp
  qed
qed

lemma column_index_bound:
  "column_index name cols = Some j \<Longrightarrow> j < length cols \<and> fst (cols ! j) = name"
proof (induction cols arbitrary: j)
  case Nil
  then show ?case by simp
next
  case (Cons c cols)
  show ?case
  proof (cases "fst c = name")
    case True
    then show ?thesis using Cons.prems by auto
  next
    case False
    then obtain i where "column_index name cols = Some i" "j = Suc i"
      using Cons.prems by auto
    then show ?thesis using Cons.IH by simp
  qed
qed

lemma set_column_names: "map fst (columns (set_column df name s)) = map fst (columns df)"
proof (cases "column_index name (columns df)")
  case None
  then show ?thesis by (simp add: set_column_def)
next
  case (Some j)
  then have j: "j < length (columns df)" "fst (columns df ! j) = name"
    using column_index_bound by blast+
  have "map fst ((columns df)[j := (name, fst s)]) = (map fst (columns df))[j := name]"
    by (simp add: map_update)
  also have "\<dots> = map fst (columns df)"
    using j by (metis length_map list_update_id nth_map)
  finally show ?thesis using Some by (simp add: set_column_def)
qed

lemma get_column_ok:
  "name \<in> fst ` set (columns df) \<Longrightarrow> \<exists>s. get_column df name = Inr s"
  using column_index_Some[of name "columns df"] by (auto simp: get_column_def)

lemma coerce_columns_ok:
  "set names \<subseteq> fst ` set (columns df) \<Longrightarrow> \<exists>df'. coerce_columns env names df = Inr df'"
proof (induction names arbitrary: df)
  case Nil
  then show ?case by simp
next
  case (Cons col cols)
  then obtain s where s: "get_column df col = Inr s"
    using get_column_ok[of col df] by auto
  let ?df = "set_column df col (coerce_numeric_if_majority env s (7 / 10))"
  have "fst ` set (columns ?df) = fst ` set (columns df)"
    using set_column_names[of df col] by (metis set_map)
  then have "set cols \<subseteq> fst ` set (columns ?df)" using Cons.prems by simp
  then show ?case using Cons.IH[of ?df] s by simp
qed

lemma select_dtypes_names:
  "set (map fst (columns (select_dtypes dt df))) \<subseteq> fst ` set (columns df)"
  by (auto simp: select_dtypes_def dtype_positions_def)

lemma clean_and_coerce_ok: "\<exists>df'. clean_and_coerce env df = Inr df'"
proof -
  let ?df = "dropna_all (drop_duplicates df)"
  have "columns (select_dtypes Object ?df) = columns (select_dtypes Object ?df)" by simp
  show ?thesis
    unfolding clean_and_coerce_def Let_def
    by (rule coerce_columns_ok) (rule select_dtypes_names)
qed

text \<open>
  Claim C3. Let \<open>p\<close> be the user-expanded path and \<open>r1\<close>, \<open>r2\<close>, \<open>r3\<close>, \<open>r4\<close> what
  \<^verbatim>\<open>read_csv\<close> gives for \<open>p\<close> as semicolon-delimited utf-8, latin-1 and cp1252, and with
  the automatic delimiter under utf-8. The resolver raises \<^verbatim>\<open>FileNotFoundError\<close> exactly
  when \<open>p\<close> does not exist, and then no \<^verbatim>\<open>read_csv\<close> call was made. It raises
  \<^verbatim>\<open>ValueError\<close> (the unreadable file) exactly when \<open>p\<close> exists and all four reads raise;
  the four attempts were made in that order and the message ends with the text of the
  exception of the last one. In every other case it returns a table.
\<close>

theorem load_csv_robust_errors:
  fixes env :: "'fs env"
  assumes "p = expanduser env file_path"
    and "r1 = read_csv env (primary_opts ''utf-8'') p fs"
    and "r2 = read_csv env (primary_opts ''latin-1'') p fs"
    and "r3 = read_csv env (primary_opts ''cp1252'') p fs"
    and "r4 = read_csv env fallback_opts p fs"
    and "all_fail = (isl r1 \<and> isl r2 \<and> isl r3 \<and> isl r4)"
  shows "((\<exists>m. load_csv_robust env file_path fs = Inl (FileNotFoundError m))
            \<longleftrightarrow> \<not> path_exists env fs p)
       \<and> (\<not> path_exists env fs p \<longrightarrow>
            load_csv_trace env file_path fs
              = ([], Inl (FileNotFoundError (msg_not_found @ p))))
       \<and> ((\<exists>m. load_csv_robust env file_path fs = Inl (ValueError m))
            \<longleftrightarrow> path_exists env fs p \<and> all_fail)
       \<and> (path_exists env fs p \<and> all_fail \<longrightarrow>
            load_csv_trace env file_path fs
              = ([primary_opts ''utf-8'', primary_opts ''latin-1'', primary_opts ''cp1252'',
                  fallback_opts],
                 Inl (ValueError (msg_unreadable @ exc_str (projl r4)))))
       \<and> ((\<exists>df. load_csv_robust env file_path fs = Inr df)
            \<longleftrightarrow> path_exists env fs p \<and> \<not> all_fail)"
proof (cases "path_exists env fs p")
  case False
  then have "load_csv_trace env file_path fs
              = ([], Inl (FileNotFoundError (msg_not_found @ p)))"
    using assms(1) by (simp add: load_csv_trace_def)
  then show ?thesis using False by (simp add: load_csv_robust_def)
next
  case True
  show ?thesis
  proof (cases all_fail)
    case af: True
    then obtain e1 e2 e3 e4 where e: "r1 = Inl e1" "r2 = Inl e2" "r3 = Inl e3" "r4 = Inl e4"
      using assms(6) by (metis sum.collapse(1))
    have t: "load_csv_trace env file_path fs
              = ([primary_opts ''utf-8'', primary_opts ''latin-1'', primary_opts ''cp1252'',
                  fallback_opts],
                 Inl (ValueError (msg_unreadable @ exc_str e4)))"
      using True e assms(1-5) by (simp add: load_csv_trace_def)
    show ?thesis using True af e(4) by (simp add: t load_csv_robust_def)
  next
    case naf: False
    have "\<exists>df. snd (load_csv_trace env file_path fs) = Inr df"
    proof -
      consider (a) df where "r1 = Inr df"
        | (b) e1 df where "r1 = Inl e1" "r2 = Inr df"
        | (c) e1 e2 df where "r1 = Inl e1" "r2 = Inl e2" "r3 = Inr df"
        | (d) e1 e2 e3 df where "r1 = Inl e1" "r2 = Inl e2" "r3 = Inl e3" "r4 = Inr df"
        using naf assms(6) by (cases r1; cases r2; cases r3; cases r4) auto
      then show ?thesis
      proof cases
        case a
        then show ?thesis
          using True assms(1-5) clean_and_coerce_ok[of env df]
          by (auto simp: load_csv_trace_def)
      next
        case b
        then show ?thesis
          using True assms(1-5) clean_and_coerce_ok[of env df]
          by (auto simp: load_csv_trace_def)
      next
        case c
        then show ?thesis
          using True assms(1-5) clean_and_coerce_ok[of env df]
          by (auto simp: load_csv_trace_def)
      next
        case d
        then show ?thesis
          using True assms(1-5) clean_and_coerce_ok[of env df]
          by (auto simp: load_csv_trace_def)
      qed
    qed
    then show ?thesis using True naf by (auto simp: load_csv_robust_def)
  qed
qed


lemmas run_tables =
  get_column_def set_column_def cell_at_def drop_duplicates_def dropna_all_def all_missing_def
  select_dtypes_def dtype_positions_def clean_and_coerce_def

theorem load_csv_robust_errors_witness:
  "load_csv_trace mem_env ''nada.csv'' demo_fs
     = ([], Inl (FileNotFoundError (msg_not_found @ ''nada.csv'')))
   \<and> load_csv_trace mem_env ''vazio.csv'' demo_fs
     = ([primary_opts ''utf-8'', primary_opts ''latin-1'', primary_opts ''cp1252'',
         fallback_opts],
        Inl (ValueError (msg_unreadable @ ''No columns to parse from file'')))
   \<and> (\<exists>df. load_csv_robust mem_env ''vendas.csv'' demo_fs = Inr df)"
proof -
  have a: "\<not> path_exists mem_env demo_fs (expanduser mem_env ''nada.csv'')"
    by (simp add: mem_env_def demo_fs_def)
  have b: "path_exists mem_env demo_fs (expanduser mem_env ''vazio.csv'')
           \<and> (isl (read_csv mem_env (primary_opts ''utf-8'') (expanduser mem_env ''vazio.csv'') demo_fs)
              \<and> isl (read_csv mem_env (primary_opts ''latin-1'') (expanduser mem_env ''vazio.csv'') demo_fs)
              \<and> isl (read_csv mem_env (primary_opts ''cp1252'') (expanduser mem_env ''vazio.csv'') demo_fs)
              \<and> isl (read_csv mem_env fallback_opts (expanduser mem_env ''vazio.csv'') demo_fs))"
    by (simp add: mem_env_def demo_fs_def)
  have c: "path_exists mem_env demo_fs (expanduser mem_env ''vendas.csv'')
           \<and> \<not> (isl (read_csv mem_env (primary_opts ''utf-8'') (expanduser mem_env ''vendas.csv'') demo_fs)
              \<and> isl (read_csv mem_env (primary_opts ''latin-1'') (expanduser mem_env ''vendas.csv'') demo_fs)
              \<and> isl (read_csv mem_env (primary_opts ''cp1252'') (expanduser mem_env ''vendas.csv'') demo_fs)
              \<and> isl (read_csv mem_env fallback_opts (expanduser mem_env ''vendas.csv'') demo_fs))"
    by (simp add: mem_env_def demo_fs_def primary_opts_def)
  have e: "expanduser mem_env = (\<lambda>p. p)"
    by (simp add: mem_env_def)
  have r4: "projl (read_csv mem_env fallback_opts ''vazio.csv'' demo_fs)
            = LibraryError ''No columns to parse from file''"
    by (simp add: mem_env_def demo_fs_def)
  have a': "load_csv_trace mem_env ''nada.csv'' demo_fs
            = ([], Inl (FileNotFoundError (msg_not_found @ ''nada.csv'')))"
    using load_csv_robust_errors[where env = mem_env and file_path = "''nada.csv''"
            and fs = demo_fs, OF refl refl refl refl refl refl,
            THEN conjunct2, THEN conjunct1, rule_format, OF a]
    by (simp only: e)
  have b': "load_csv_trace mem_env ''vazio.csv'' demo_fs
     = ([primary_opts ''utf-8'', primary_opts ''latin-1'', primary_opts ''cp1252'',
         fallback_opts],
        Inl (ValueError (msg_unreadable @ ''No columns to parse from file'')))"
    using load_csv_robust_errors[where env = mem_env and file_path = "''vazio.csv''"
            and fs = demo_fs, OF refl refl refl refl refl refl,
            THEN conjunct2, THEN conjunct2, THEN conjunct2, THEN conjunct1, rule_format, OF b]
    by (simp only: e r4 exc_str.simps)
  have c': "\<exists>df. load_csv_robust mem_env ''vendas.csv'' demo_fs = Inr df"
    using load_csv_robust_errors[where env = mem_env and file_path = "''vendas.csv''"
            and fs = demo_fs, OF refl refl refl refl refl refl,
            THEN conjunct2, THEN conjunct2, THEN conjunct2, THEN conjunct2, THEN iffD2, OF c]
    by (simp only: e)
  show ?thesis using a' b' c' by (intro conjI)
qed

subsection \<open>Cleaner\<close>











subsection \<open>The three tools\<close>

text \<open>
  Claim C4. For every environment, file system and arguments, each of the three tools
  returns a string and raises nothing: when the body of its \<^verbatim>\<open>try\<close> raises an exception
  \<open>e\<close>, the tool returns its failure message built from \<open>str(e)\<close>; when the body
  returns a text, the tool returns that text.
\<close>

theorem tools_never_raise:
  fixes env :: "'fs env"
  shows "(\<exists>s. fst (analyze_csv env file_path pergunta fs) = Inr s)
       \<and> (\<exists>s. fst (clean_csv env file_path output_name fs) = Inr s)
       \<and> (\<exists>s. csv_info env file_path fs = Inr s)
       \<and> (\<forall>e. fst (analyze_csv_body env file_path pergunta fs) = Inl e \<longrightarrow>
              fst (analyze_csv env file_path pergunta fs)
                = Inr ([CHR 0xE2, CHR 0x9D, CHR 0x8C] @ '' Erro na an'' @ [CHR 0xC3, CHR 0xA1]
                       @ ''lise: '' @ exc_str e @ [CHR 0x0A]
                       @ ''Dica: verifique o caminho do arquivo e se '' @ [CHR 0xC3, CHR 0xA9]
                       @ '' um CSV v'' @ [CHR 0xC3, CHR 0xA1] @ ''lido.''))
       \<and> (\<forall>e. fst (clean_csv_body env file_path output_name fs) = Inl e \<longrightarrow>
              fst (clean_csv env file_path output_name fs)
                = Inr ([CHR 0xE2, CHR 0x9D, CHR 0x8C] @ '' Erro na limpeza: '' @ exc_str e))
       \<and> (\<forall>e. csv_info_body env file_path fs = Inl e \<longrightarrow>
              csv_info env file_path fs
                = Inr ([CHR 0xE2, CHR 0x9D, CHR 0x8C] @ '' Erro no diagn'' @ [CHR 0xC3, CHR 0xB3]
                       @ ''stico: '' @ exc_str e))
       \<and> (\<forall>s. fst (analyze_csv_body env file_path pergunta fs) = Inr s \<longrightarrow>
              fst (analyze_csv env file_path pergunta fs) = Inr s)
       \<and> (\<forall>s. fst (clean_csv_body env file_path output_name fs) = Inr s \<longrightarrow>
              fst (clean_csv env file_path output_name fs) = Inr s)
       \<and> (\<forall>s. csv_info_body env file_path fs = Inr s \<longrightarrow>
              csv_info env file_path fs = Inr s)"
proof -
  obtain ra fa where a: "analyze_csv_body env file_path pergunta fs = (ra, fa)"
    by (cases "analyze_csv_body env file_path pergunta fs")
  obtain rc fc where c: "clean_csv_body env file_path output_name fs = (rc, fc)"
    by (cases "clean_csv_body env file_path output_name fs")
  have A: "fst (analyze_csv env file_path pergunta fs)
           = (case ra of Inr s \<Rightarrow> Inr s
              | Inl e \<Rightarrow> Inr ([CHR 0xE2, CHR 0x9D, CHR 0x8C] @ '' Erro na an'' @ [CHR 0xC3, CHR 0xA1]
                       @ ''lise: '' @ exc_str e @ [CHR 0x0A]
                       @ ''Dica: verifique o caminho do arquivo e se '' @ [CHR 0xC3, CHR 0xA9]
                       @ '' um CSV v'' @ [CHR 0xC3, CHR 0xA1] @ ''lido.''))"
    by (cases ra) (simp_all add: analyze_csv_def a)
  have C: "fst (clean_csv env file_path output_name fs)
           = (case rc of Inr s \<Rightarrow> Inr s
              | Inl e \<Rightarrow> Inr ([CHR 0xE2, CHR 0x9D, CHR 0x8C] @ '' Erro na limpeza: '' @ exc_str e))"
    by (cases rc) (simp_all add: clean_csv_def c)
  have I: "csv_info env file_path fs
           = (case csv_info_body env file_path fs of Inr s \<Rightarrow> Inr s
              | Inl e \<Rightarrow> Inr ([CHR 0xE2, CHR 0x9D, CHR 0x8C] @ '' Erro no diagn'' @ [CHR 0xC3, CHR 0xB3]
                       @ ''stico: '' @ exc_str e))"
    by (simp add: csv_info_def)
  show ?thesis
    unfolding A C I a c fst_conv
    by (cases ra; cases rc; cases "csv_info_body env file_path fs") simp_all
qed

theorem tools_never_raise_witness:
  "fst (analyze_csv mem_env ''nada.csv'' ''Totais?'' demo_fs)
     = Inr ([CHR 0xE2, CHR 0x9D, CHR 0x8C] @ '' Erro na an'' @ [CHR 0xC3, CHR 0xA1]
            @ ''lise: '' @ msg_not_found @ ''nada.csv'' @ [CHR 0x0A]
            @ ''Dica: verifique o caminho do arquivo e se '' @ [CHR 0xC3, CHR 0xA9]
            @ '' um CSV v'' @ [CHR 0xC3, CHR 0xA1] @ ''lido.'')
   \<and> fst (clean_csv mem_env ''nada.csv'' ''cleaned.csv'' demo_fs)
     = Inr ([CHR 0xE2, CHR 0x9D, CHR 0x8C] @ '' Erro na limpeza: '' @ ''nada.csv'')
   \<and> csv_info mem_env ''vazio.csv'' demo_fs
     = Inr ([CHR 0xE2, CHR 0x9D, CHR 0x8C] @ '' Erro no diagn'' @ [CHR 0xC3, CHR 0xB3]
            @ ''stico: '' @ ''No columns to parse from file'')"
proof -
  note t = tools_never_raise[where env = mem_env and file_path = "''nada.csv''"
             and pergunta = "''Totais?''" and output_name = "''cleaned.csv''" and fs = demo_fs]
  note u = tools_never_raise[where env = mem_env and file_path = "''vazio.csv''"
             and fs = demo_fs]
  have a: "fst (analyze_csv_body mem_env ''nada.csv'' ''Totais?'' demo_fs)
           = Inl (FileNotFoundError (msg_not_found @ ''nada.csv''))"
    by (simp add: analyze_csv_body_def analyze_sections_def load_csv_robust_def
          load_csv_trace_def mem_env_def demo_fs_def)
  have c: "fst (clean_csv_body mem_env ''nada.csv'' ''cleaned.csv'' demo_fs)
           = Inl (FileNotFoundError ''nada.csv'')"
    by (simp add: clean_csv_body_def mem_env_def demo_fs_def)
  have i: "csv_info_body mem_env ''vazio.csv'' demo_fs
           = Inl (LibraryError ''No columns to parse from file'')"
    by (simp add: csv_info_body_def mem_env_def demo_fs_def)
  have "fst (analyze_csv mem_env ''nada.csv'' ''Totais?'' demo_fs)
     = Inr ([CHR 0xE2, CHR 0x9D, CHR 0x8C] @ '' Erro na an'' @ [CHR 0xC3, CHR 0xA1]
            @ ''lise: '' @ exc_str (FileNotFoundError (msg_not_found @ ''nada.csv'')) @ [CHR 0x0A]
            @ ''Dica: verifique o caminho do arquivo e se '' @ [CHR 0xC3, CHR 0xA9]
            @ '' um CSV v'' @ [CHR 0xC3, CHR 0xA1] @ ''lido.'')"
    by (rule t[THEN conjunct2, THEN conjunct2, THEN conjunct2, THEN conjunct1, rule_format, OF a])
  moreover have "fst (clean_csv mem_env ''nada.csv'' ''cleaned.csv'' demo_fs)
     = Inr ([CHR 0xE2, CHR 0x9D, CHR 0x8C] @ '' Erro na limpeza: ''
            @ exc_str (FileNotFoundError ''nada.csv''))"
    by (rule t[THEN conjunct2, THEN conjunct2, THEN conjunct2, THEN conjunct2, THEN conjunct1,
               rule_format, OF c])
  moreover have "csv_info mem_env ''vazio.csv'' demo_fs
     = Inr ([CHR 0xE2, CHR 0x9D, CHR 0x8C] @ '' Erro no diagn'' @ [CHR 0xC3, CHR 0xB3]
            @ ''stico: '' @ exc_str (LibraryError ''No columns to parse from file''))"
    by (rule u[THEN conjunct2, THEN conjunct2, THEN conjunct2, THEN conjunct2, THEN conjunct2,
               THEN conjunct1, rule_format, OF i])
  ultimately show ?thesis by (simp only: exc_str.simps append_assoc simp_thms)
qed

subsection \<open>Outlier detection\<close>




subsection \<open>Monthly trend\<close>

lemma get_column_length:
  "get_column df name = Inr s \<Longrightarrow> length (snd s) = length (rows df)"
  by (auto simp: get_column_def split: option.splits)

lemma column_index_update_other:
  "j < length cols \<Longrightarrow> fst (cols ! j) = d \<Longrightarrow> v \<noteq> d \<Longrightarrow>
   column_index v (cols[j := (d, x)]) = column_index v cols"
proof (induction cols arbitrary: j)
  case Nil
  then show ?case by simp
next
  case (Cons c cols)
  show ?case
  proof (cases j)
    case 0
    then show ?thesis using Cons.prems by simp
  next
    case (Suc i)
    then have "column_index v (cols[i := (d, x)]) = column_index v cols"
      using Cons.IH[of i] Cons.prems by simp
    then show ?thesis using Suc by simp
  qed
qed

lemma cell_at_update_other: "i \<noteq> j \<Longrightarrow> cell_at (r[j := c]) i = cell_at r i"
  by (simp add: cell_at_def)

lemma map_zip_left:
  "length ys = length xs \<Longrightarrow> map (\<lambda>(x, y). f x) (zip xs ys) = map f xs"
proof (induction xs arbitrary: ys)
  case Nil
  then show ?case by simp
next
  case (Cons x xs)
  then obtain y ys' where "ys = y # ys'" by (cases ys) auto
  then show ?case using Cons by simp
qed

lemma get_column_set_other:
  assumes "length (snd s) = length (rows df)" and "v \<noteq> d"
  shows "get_column (set_column df d s) v = get_column df v"
proof (cases "column_index d (columns df)")
  case None
  then show ?thesis by (simp add: set_column_def)
next
  case (Some j)
  then have j: "j < length (columns df)" "fst (columns df ! j) = d"
    using column_index_bound by blast+
  have ci: "column_index v ((columns df)[j := (d, fst s)]) = column_index v (columns df)"
    using column_index_update_other[OF j assms(2)] .
  show ?thesis
  proof (cases "column_index v (columns df)")
    case None
    then show ?thesis using Some ci by (simp add: get_column_def set_column_def)
  next
    case vi: (Some i)
    then have i: "i < length (columns df)" "fst (columns df ! i) = v"
      using column_index_bound by blast+
    then have ij: "i \<noteq> j" using j assms(2) by auto
    have "map (\<lambda>r. cell_at r i) (map (\<lambda>(r, c). r[j := c]) (zip (rows df) (snd s)))
          = map (\<lambda>(r, c). cell_at r i) (zip (rows df) (snd s))"
      using ij by (simp add: cell_at_update_other split_def)
    also have "\<dots> = map (\<lambda>r. cell_at r i) (rows df)"
      using assms(1) by (rule map_zip_left)
    finally show ?thesis
      using Some vi ci ij by (simp add: get_column_def set_column_def)
  qed
qed


lemma month_rows_stamp:
  "month_rows (map (\<lambda>p. case p of Some (m, k) \<Rightarrow> Ts m k | None \<Rightarrow> NaN) parsed) vals
   = concat (map (\<lambda>(p, x). case p of Some (m, k) \<Rightarrow> [(m, x)] | None \<Rightarrow> [])
                 (zip parsed vals))"
  unfolding month_rows_def
proof (induction parsed arbitrary: vals)
  case Nil
  then show ?case by simp
next
  case (Cons p parsed)
  show ?case
  proof (cases vals)
    case Nil
    then show ?thesis by simp
  next
    case (Cons x xs)
    then show ?thesis using Cons.IH[of xs] by (simp split: option.splits)
  qed
qed

lemma month_rows_values:
  "map snd (filter (\<lambda>r. fst r = m)
      (concat (map (\<lambda>(p, x). case p of Some (m', k) \<Rightarrow> [(m', x)] | None \<Rightarrow> []) zs)))
   = map snd (filter (\<lambda>(p, x). map_option fst p = Some m) zs)"
  by (induction zs) (auto split: option.splits)

lemma month_rows_member:
  "(m, x) \<in> set (concat (map (\<lambda>(p, x). case p of Some (m', k) \<Rightarrow> [(m', x)] | None \<Rightarrow> []) zs))
   \<longleftrightarrow> (\<exists>k. (Some (m, k), x) \<in> set zs)"
  by (induction zs) (auto split: option.splits)

lemma month_rows_months:
  "fst ` set (concat (map (\<lambda>(p, x). case p of Some (m', k) \<Rightarrow> [(m', x)] | None \<Rightarrow> []) zs))
   = {m. \<exists>k x. (Some (m, k), x) \<in> set zs}"
proof (rule set_eqI)
  fix m
  have "m \<in> fst ` set (concat (map (\<lambda>(p, x). case p of Some (m', k) \<Rightarrow> [(m', x)]
                                        | None \<Rightarrow> []) zs))
        \<longleftrightarrow> (\<exists>x. (m, x) \<in> set (concat (map (\<lambda>(p, x). case p of Some (m', k) \<Rightarrow> [(m', x)]
                                        | None \<Rightarrow> []) zs)))"
    by force
  also have "\<dots> \<longleftrightarrow> (\<exists>x k. (Some (m, k), x) \<in> set zs)"
    by (simp only: month_rows_member)
  finally show "m \<in> fst ` set (concat (map (\<lambda>(p, x). case p of Some (m', k) \<Rightarrow> [(m', x)]
                                        | None \<Rightarrow> []) zs))
        \<longleftrightarrow> m \<in> {m. \<exists>k x. (Some (m, k), x) \<in> set zs}"
    by blast
qed

lemma zip_months:
  assumes "length vals = length parsed"
  shows "{m. \<exists>k x. (Some (m, k), x) \<in> set (zip parsed vals)}
         = {m. \<exists>i<length parsed. \<exists>k. parsed ! i = Some (m, k)}"
proof -
  have "(\<exists>x. (p, x) \<in> set (zip parsed vals)) \<longleftrightarrow> (\<exists>i<length parsed. parsed ! i = p)" for p
    using assms by (auto simp: set_zip)
  then show ?thesis by blast
qed

lemma group_months_months:
  "map fst (group_months mrows) = sort (remdups (map fst mrows))"
  by (simp add: group_months_def comp_def)

lemma group_months_entry:
  "(m, s, c) \<in> set (group_months mrows) \<longleftrightarrow>
     m \<in> fst ` set mrows
     \<and> s = sum_list (numbers (map snd (filter (\<lambda>r. fst r = m) mrows)))
     \<and> c = length (numbers (map snd (filter (\<lambda>r. fst r = m) mrows)))"
  by (auto simp: group_months_def)

lemma tail_suffix: "take (length xs - n) xs @ tail n xs = xs \<and> length (tail n xs) = min n (length xs)"
  by (auto simp: tail_def)

lemma count_invalid:
  "length (filter Not (map notna
      (map (\<lambda>p. case p of Some (m, k) \<Rightarrow> Ts m k | None \<Rightarrow> NaN) parsed)))
   = length (filter (\<lambda>p. p = None) parsed)"
  by (induction parsed) (auto simp: notna_def split: option.splits)

lemma count_valid:
  "length (filter id (map notna
      (map (\<lambda>p. case p of Some (m, k) \<Rightarrow> Ts m k | None \<Rightarrow> NaN) parsed)))
   = length parsed - length (filter (\<lambda>p. p = None) parsed)"
proof (induction parsed)
  case Nil
  then show ?case by simp
next
  case (Cons p parsed)
  have "length (filter (\<lambda>p. p = None) parsed) \<le> length parsed" by (rule length_filter_le)
  then show ?case using Cons by (auto simp: notna_def Suc_diff_le split: option.splits)
qed

lemma to_datetime_parsed:
  "to_datetime env ds
   = (Datetime, map (\<lambda>p. case p of Some (m, k) \<Rightarrow> Ts m k | None \<Rightarrow> NaN)
                    (map (date_parser env (snd ds)) (snd ds)))"
  by (simp add: to_datetime_def comp_def)


text \<open>
  Claim C7. Let the date-role column \<open>d\<close> and a numeric value-role column \<open>v\<close>, another
  column, exist, and let the monthly table render. The section parses the date column,
  a cell that does not parse becoming missing; it reports the number of rows with a
  missing date, which it excludes; the other rows are grouped by calendar month, one line
  per month that has a row, the months strictly ascending, each with the sum and the
  count of the values of its rows that are not missing; and the report shows the last
  12 of these lines, when a date is valid.
\<close>

theorem monthly_trend:
  fixes env :: "'fs env"
  assumes "d \<noteq> []" and "v \<noteq> []" and "v \<noteq> d"
    and "get_column df d = Inr ds"
    and "get_column df v = Inr (Number, vals)"
    and "parsed = map (date_parser env (snd ds)) (snd ds)"
    and "excluded = length (filter (\<lambda>p. p = None) parsed)"
    and "month_vals = (\<lambda>m. numbers (map snd
            (filter (\<lambda>(p, x). map_option fst p = Some m) (zip parsed vals))))"
    and "\<And>t. \<exists>md. monthly_markdown env t = Inr md"
  shows "\<exists>groups older monthly.
           length parsed = length (rows df)
         \<and> sorted_wrt (<) (map fst groups)
         \<and> set (map fst groups) = {m. \<exists>i<length parsed. \<exists>k. parsed ! i = Some (m, k)}
         \<and> (\<forall>(m, s, c) \<in> set groups. s = sum_list (month_vals m) \<and> c = length (month_vals m))
         \<and> groups = older @ monthly \<and> length monthly = min 12 (length groups)
         \<and> trend_section env df (Some v) (Some d)
             = Inr ([CHR 0xE2, CHR 0x9A, CHR 0xA0, CHR 0xEF, CHR 0xB8, CHR 0x8F]
                    @ '' Datas inv'' @ [CHR 0xC3, CHR 0xA1] @ ''lidas ignoradas: ''
                    @ fmt_thousands excluded @ '' linhas'' @ [CHR 0x0A, CHR 0x0A]
                    @ (if excluded < length parsed
                       then ''## '' @ [CHR 0xF0, CHR 0x9F, CHR 0x93, CHR 0x85]
                            @ '' Tend'' @ [CHR 0xC3, CHR 0xAA] @ ''ncia Mensal (''
                            @ [CHR 0xC3, CHR 0xBA] @ ''ltimos 12 meses)'' @ [CHR 0x0A]
                            @ projr (monthly_markdown env monthly) @ [CHR 0x0A, CHR 0x0A]
                       else []),
                    set_column df d (to_datetime env ds),
                    excluded < length parsed,
                    monthly)"
proof -
  let ?stamp = "\<lambda>p. case p of Some (m, k) \<Rightarrow> Ts m k | None \<Rightarrow> NaN"
  let ?MR = "month_rows (snd (to_datetime env ds)) vals"
  let ?G = "group_months ?MR"
  have td: "to_datetime env ds = (Datetime, map ?stamp parsed)"
    unfolding assms(6) by (rule to_datetime_parsed)
  have len_ds: "length (snd ds) = length (rows df)"
    using assms(4) by (rule get_column_length)
  have len_p: "length parsed = length (rows df)"
    using len_ds assms(6) by simp
  have len_v: "length vals = length parsed"
    using get_column_length[OF assms(5)] len_p by simp
  have MR: "?MR = concat (map (\<lambda>(p, x). case p of Some (m, k) \<Rightarrow> [(m, x)] | None \<Rightarrow> [])
                              (zip parsed vals))"
    unfolding td snd_conv by (rule month_rows_stamp)
  have months: "fst ` set ?MR = {m. \<exists>i<length parsed. \<exists>k. parsed ! i = Some (m, k)}"
    unfolding MR month_rows_months by (rule zip_months[OF len_v])
  have sorted_G: "sorted_wrt (<) (map fst ?G)"
    unfolding group_months_months strict_sorted_iff by simp
  have set_G: "set (map fst ?G) = {m. \<exists>i<length parsed. \<exists>k. parsed ! i = Some (m, k)}"
    unfolding group_months_months using months by simp
  have entries: "\<forall>(m, s, c) \<in> set ?G. s = sum_list (month_vals m) \<and> c = length (month_vals m)"
    unfolding assms(8) using MR by (auto simp: group_months_entry month_rows_values)
  have tl: "?G = take (length ?G - 12) ?G @ tail 12 ?G"
    "length (tail 12 ?G) = min 12 (length ?G)"
    using tail_suffix[of ?G 12] by simp_all
  have inv: "length (filter Not (map notna (map ?stamp parsed))) = excluded"
    unfolding assms(7) by (rule count_invalid)
  have val: "length (filter id (map notna (map ?stamp parsed))) = length parsed - excluded"
    unfolding assms(7) by (rule count_valid)
  have other: "get_column (set_column df d (to_datetime env ds)) v = Inr (Number, vals)"
    using get_column_set_other[of "to_datetime env ds" df v d] td len_p assms(3,5) by simp
  have sec: "trend_section env df (Some v) (Some d)
             = Inr ([CHR 0xE2, CHR 0x9A, CHR 0xA0, CHR 0xEF, CHR 0xB8, CHR 0x8F]
                    @ '' Datas inv'' @ [CHR 0xC3, CHR 0xA1] @ ''lidas ignoradas: ''
                    @ fmt_thousands excluded @ '' linhas'' @ [CHR 0x0A, CHR 0x0A]
                    @ (if excluded < length parsed
                       then ''## '' @ [CHR 0xF0, CHR 0x9F, CHR 0x93, CHR 0x85]
                            @ '' Tend'' @ [CHR 0xC3, CHR 0xAA] @ ''ncia Mensal (''
                            @ [CHR 0xC3, CHR 0xBA] @ ''ltimos 12 meses)'' @ [CHR 0x0A]
                            @ projr (monthly_markdown env (tail 12 ?G)) @ [CHR 0x0A, CHR 0x0A]
                       else []),
                    set_column df d (to_datetime env ds),
                    excluded < length parsed,
                    tail 12 ?G)"
  proof -
    have le: "excluded \<le> length parsed"
      unfolding assms(7) by (rule length_filter_le)
    have val': "(0 < length (filter id (map notna (map ?stamp parsed))))
                = (excluded < length parsed)"
      using val le by simp
    have start: "trend_section env df (Some v) (Some d)
         = (let parsed = to_datetime env ds;
                df1 = set_column df d parsed;
                valid_dates = map notna (snd parsed);
                line = [CHR 0xE2, CHR 0x9A, CHR 0xA0, CHR 0xEF, CHR 0xB8, CHR 0x8F]
                       @ '' Datas inv'' @ [CHR 0xC3, CHR 0xA1] @ ''lidas ignoradas: ''
                       @ fmt_thousands (length (filter Not valid_dates))
                       @ '' linhas'' @ [CHR 0x0A, CHR 0x0A]
            in if length (filter id valid_dates) > 0 then
                 (case get_column df1 v of
                    Inl e \<Rightarrow> Inl e
                  | Inr vs \<Rightarrow>
                      (case numeric_series env vs of
                         Inl e \<Rightarrow> Inl e
                       | Inr vals \<Rightarrow>
                           (let monthly = tail 12 (group_months (month_rows (snd parsed) vals))
                            in case monthly_markdown env monthly of
                                 Inl e \<Rightarrow> Inl e
                               | Inr md \<Rightarrow>
                                   Inr (line @ ''## '' @ [CHR 0xF0, CHR 0x9F, CHR 0x93, CHR 0x85]
                                        @ '' Tend'' @ [CHR 0xC3, CHR 0xAA] @ ''ncia Mensal (''
                                        @ [CHR 0xC3, CHR 0xBA] @ ''ltimos 12 meses)''
                                        @ [CHR 0x0A] @ md @ [CHR 0x0A, CHR 0x0A],
                                        df1, True, monthly))))
               else Inr (line, df1, False, []))"
      by (simp only: trend_section_def truthy.simps option.sel assms(1,2,4) sum.case
            if_True simp_thms)
    show ?thesis
    proof (cases "excluded < length parsed")
      case True
      obtain md where md: "monthly_markdown env (tail 12 ?G) = Inr md"
        using assms(9) by blast
      have ns: "numeric_series env (Number, vals) = Inr vals"
        by (simp add: numeric_series_def)
      show ?thesis
        unfolding start Let_def inv val' other
        unfolding td snd_conv inv val'
        using True md ns unfolding td snd_conv
        by (simp only: if_True sum.case sum.sel append_assoc)
    next
      case False
      then have all: "excluded = length parsed" using le by simp
      then have "\<forall>p\<in>set parsed. p = None"
        unfolding assms(7)
        by (metis (mono_tags, lifting) filter_id_conv length_filter_less less_irrefl)
      then have "{m. \<exists>i<length parsed. \<exists>k. parsed ! i = Some (m, k)} = {}"
        by (auto simp: all_set_conv_all_nth)
      then have "set (map fst ?G) = {}" using set_G by (simp only:)
      then have "?G = []" by simp
      then have "tail 12 ?G = []" by (simp add: tail_def)
      then show ?thesis
        unfolding start Let_def
        unfolding td snd_conv inv val'
        using False unfolding td snd_conv
        by (simp only: if_False append_Nil2 append_assoc)
    qed
  qed
  show ?thesis
    using len_p sorted_G set_G entries tl sec by blast
qed


theorem monthly_trend_witness:
  "\<exists>frag df1. trend_section mem_env demo_loaded (Some ''Total_Venda'') (Some ''Data'')
     = Inr (frag, df1, True, [(648, 400, 2), (649, 0, 0)])"
proof -
  have d: "get_column demo_loaded ''Data''
           = Inr (Object, [Ts 648 0, Ts 648 5, Str ''invalida'', Ts 649 1])"
    by (simp add: get_column_def demo_loaded_def cell_at_def)
  have v: "get_column demo_loaded ''Total_Venda''
           = Inr (Number, [Num 100, Num 300, Num (60001 / 100), NaN])"
    by (simp add: get_column_def demo_loaded_def cell_at_def)
  have md: "\<exists>md. monthly_markdown mem_env t = Inr md" for t
    by (simp add: mem_env_def)
  obtain groups older monthly where
    g: "sorted_wrt (<) (map fst groups)"
       "groups = older @ monthly"
    and sec: "\<exists>frag. trend_section mem_env demo_loaded (Some ''Total_Venda'') (Some ''Data'')
           = Inr (frag, set_column demo_loaded ''Data''
                          (to_datetime mem_env (Object, [Ts 648 0, Ts 648 5, Str ''invalida'', Ts 649 1])),
                  length (filter (\<lambda>p. p = None) (map (date_parser mem_env (snd (Object, [Ts 648 0, Ts 648 5, Str ''invalida'', Ts 649 1]))) (snd (Object, [Ts 648 0, Ts 648 5, Str ''invalida'', Ts 649 1]))))
                    < length (map (date_parser mem_env (snd (Object, [Ts 648 0, Ts 648 5, Str ''invalida'', Ts 649 1]))) (snd (Object, [Ts 648 0, Ts 648 5, Str ''invalida'', Ts 649 1]))),
                  monthly)"
    using monthly_trend[where env = mem_env and df = demo_loaded and d = "''Data''"
            and v = "''Total_Venda''", OF _ _ _ d v refl refl refl md]
    by auto
  have pd: "map (date_parser mem_env [Ts 648 0, Ts 648 5, Str ''invalida'', Ts 649 1])
              [Ts 648 0, Ts 648 5, Str ''invalida'', Ts 649 1]
            = [Some (648, 0), Some (648, 5), None, Some (649, 1)]"
    by (simp add: mem_env_def)
  have ev: "snd (snd (snd (projr
              (trend_section mem_env demo_loaded (Some ''Total_Venda'') (Some ''Data'')))))
            = [(648, 400, 2), (649, 0, 0)]"
    using d v
    by (simp add: trend_section_def Let_def to_datetime_def pd mem_env_def set_column_def
          get_column_def demo_loaded_def cell_at_def numeric_series_def month_rows_def
          group_months_def numbers_def tail_def notna_def del: fmt_thousands.simps)
  from sec obtain frag where
    "trend_section mem_env demo_loaded (Some ''Total_Venda'') (Some ''Data'')
       = Inr (frag, set_column demo_loaded ''Data''
                (to_datetime mem_env (Object, [Ts 648 0, Ts 648 5, Str ''invalida'', Ts 649 1])),
              True, monthly)"
    unfolding snd_conv pd by auto
  moreover from this ev have "monthly = [(648, 400, 2), (649, 0, 0)]" by simp
  ultimately show ?thesis by blast
qed


lemma demo_load: "load_csv_robust mem_env ''vendas.csv'' demo_fs = Inr demo_loaded"
  by (simp add: load_csv_robust_def load_csv_trace_def mem_env_def demo_fs_def demo_table_def
        demo_loaded_def primary_opts_def run_tables coerce_numeric_if_majority_def
        valid_ratio_def converted_def coerce_cell_def notna_def normalise_cell_def
        astype_str_def strip_non_numeric_def numeric_char_def comma_to_period_def
        parse_decimal_def parse_unsigned_def digit_val_def)

end
